theory Spec2Isabelle
  imports Main "HOL-Library.Word"
begin

unbundle bit_operations_syntax

section \<open>Shamir secret sharing over GF(2^8) (shamir/shamir.go)\<close>

type_synonym u8 = "8 word"

text \<open>
  A Go call either returns normally, returns an \<open>error\<close> value, or panics.
  \<open>Error\<close> carries the message of \<open>fmt.Errorf\<close>; \<open>Panic\<close> the message of a
  run-time panic (an index out of range, the explicit panic of \<open>div\<close>).
\<close>

datatype failure = Error string | Panic string

subsection \<open>The logarithm and exponentiation tables\<close>

definition logTable :: "u8 list" where
  "logTable = [
     0x00, 0xff, 0xc8, 0x08, 0x91, 0x10, 0xd0, 0x36,
     0x5a, 0x3e, 0xd8, 0x43, 0x99, 0x77, 0xfe, 0x18,
     0x23, 0x20, 0x07, 0x70, 0xa1, 0x6c, 0x0c, 0x7f,
     0x62, 0x8b, 0x40, 0x46, 0xc7, 0x4b, 0xe0, 0x0e,
     0xeb, 0x16, 0xe8, 0xad, 0xcf, 0xcd, 0x39, 0x53,
     0x6a, 0x27, 0x35, 0x93, 0xd4, 0x4e, 0x48, 0xc3,
     0x2b, 0x79, 0x54, 0x28, 0x09, 0x78, 0x0f, 0x21,
     0x90, 0x87, 0x14, 0x2a, 0xa9, 0x9c, 0xd6, 0x74,
     0xb4, 0x7c, 0xde, 0xed, 0xb1, 0x86, 0x76, 0xa4,
     0x98, 0xe2, 0x96, 0x8f, 0x02, 0x32, 0x1c, 0xc1,
     0x33, 0xee, 0xef, 0x81, 0xfd, 0x30, 0x5c, 0x13,
     0x9d, 0x29, 0x17, 0xc4, 0x11, 0x44, 0x8c, 0x80,
     0xf3, 0x73, 0x42, 0x1e, 0x1d, 0xb5, 0xf0, 0x12,
     0xd1, 0x5b, 0x41, 0xa2, 0xd7, 0x2c, 0xe9, 0xd5,
     0x59, 0xcb, 0x50, 0xa8, 0xdc, 0xfc, 0xf2, 0x56,
     0x72, 0xa6, 0x65, 0x2f, 0x9f, 0x9b, 0x3d, 0xba,
     0x7d, 0xc2, 0x45, 0x82, 0xa7, 0x57, 0xb6, 0xa3,
     0x7a, 0x75, 0x4f, 0xae, 0x3f, 0x37, 0x6d, 0x47,
     0x61, 0xbe, 0xab, 0xd3, 0x5f, 0xb0, 0x58, 0xaf,
     0xca, 0x5e, 0xfa, 0x85, 0xe4, 0x4d, 0x8a, 0x05,
     0xfb, 0x60, 0xb7, 0x7b, 0xb8, 0x26, 0x4a, 0x67,
     0xc6, 0x1a, 0xf8, 0x69, 0x25, 0xb3, 0xdb, 0xbd,
     0x66, 0xdd, 0xf1, 0xd2, 0xdf, 0x03, 0x8d, 0x34,
     0xd9, 0x92, 0x0d, 0x63, 0x55, 0xaa, 0x49, 0xec,
     0xbc, 0x95, 0x3c, 0x84, 0x0b, 0xf5, 0xe6, 0xe7,
     0xe5, 0xac, 0x7e, 0x6e, 0xb9, 0xf9, 0xda, 0x8e,
     0x9a, 0xc9, 0x24, 0xe1, 0x0a, 0x15, 0x6b, 0x3a,
     0xa0, 0x51, 0xf4, 0xea, 0xb2, 0x97, 0x9e, 0x5d,
     0x22, 0x88, 0x94, 0xce, 0x19, 0x01, 0x71, 0x4c,
     0xa5, 0xe3, 0xc5, 0x31, 0xbb, 0xcc, 0x1f, 0x2d,
     0x3b, 0x52, 0x6f, 0xf6, 0x2e, 0x89, 0xf7, 0xc0,
     0x68, 0x1b, 0x64, 0x04, 0x06, 0xbf, 0x83, 0x38]"

definition expTable :: "u8 list" where
  "expTable = [
     0x01, 0xe5, 0x4c, 0xb5, 0xfb, 0x9f, 0xfc, 0x12,
     0x03, 0x34, 0xd4, 0xc4, 0x16, 0xba, 0x1f, 0x36,
     0x05, 0x5c, 0x67, 0x57, 0x3a, 0xd5, 0x21, 0x5a,
     0x0f, 0xe4, 0xa9, 0xf9, 0x4e, 0x64, 0x63, 0xee,
     0x11, 0x37, 0xe0, 0x10, 0xd2, 0xac, 0xa5, 0x29,
     0x33, 0x59, 0x3b, 0x30, 0x6d, 0xef, 0xf4, 0x7b,
     0x55, 0xeb, 0x4d, 0x50, 0xb7, 0x2a, 0x07, 0x8d,
     0xff, 0x26, 0xd7, 0xf0, 0xc2, 0x7e, 0x09, 0x8c,
     0x1a, 0x6a, 0x62, 0x0b, 0x5d, 0x82, 0x1b, 0x8f,
     0x2e, 0xbe, 0xa6, 0x1d, 0xe7, 0x9d, 0x2d, 0x8a,
     0x72, 0xd9, 0xf1, 0x27, 0x32, 0xbc, 0x77, 0x85,
     0x96, 0x70, 0x08, 0x69, 0x56, 0xdf, 0x99, 0x94,
     0xa1, 0x90, 0x18, 0xbb, 0xfa, 0x7a, 0xb0, 0xa7,
     0xf8, 0xab, 0x28, 0xd6, 0x15, 0x8e, 0xcb, 0xf2,
     0x13, 0xe6, 0x78, 0x61, 0x3f, 0x89, 0x46, 0x0d,
     0x35, 0x31, 0x88, 0xa3, 0x41, 0x80, 0xca, 0x17,
     0x5f, 0x53, 0x83, 0xfe, 0xc3, 0x9b, 0x45, 0x39,
     0xe1, 0xf5, 0x9e, 0x19, 0x5e, 0xb6, 0xcf, 0x4b,
     0x38, 0x04, 0xb9, 0x2b, 0xe2, 0xc1, 0x4a, 0xdd,
     0x48, 0x0c, 0xd0, 0x7d, 0x3d, 0x58, 0xde, 0x7c,
     0xd8, 0x14, 0x6b, 0x87, 0x47, 0xe8, 0x79, 0x84,
     0x73, 0x3c, 0xbd, 0x92, 0xc9, 0x23, 0x8b, 0x97,
     0x95, 0x44, 0xdc, 0xad, 0x40, 0x65, 0x86, 0xa2,
     0xa4, 0xcc, 0x7f, 0xec, 0xc0, 0xaf, 0x91, 0xfd,
     0xf7, 0x4f, 0x81, 0x2f, 0x5b, 0xea, 0xa8, 0x1c,
     0x02, 0xd1, 0x98, 0x71, 0xed, 0x25, 0xe3, 0x24,
     0x06, 0x68, 0xb3, 0x93, 0x2c, 0x6f, 0x3e, 0x6c,
     0x0a, 0xb8, 0xce, 0xae, 0x74, 0xb1, 0x42, 0xb4,
     0x1e, 0xd3, 0x49, 0xe9, 0x9c, 0xc8, 0xc6, 0xc7,
     0x22, 0x6e, 0xdb, 0x20, 0xbf, 0x43, 0x51, 0x52,
     0x66, 0xb2, 0x76, 0x60, 0xda, 0xc5, 0xf3, 0xf6,
     0xaa, 0xcd, 0x9a, 0xa0, 0x75, 0x54, 0x0e, 0x01]"

subsection \<open>Field arithmetic\<close>

text \<open>
  Go's \<open>%\<close> on \<open>int\<close> truncates towards zero, so its result has the sign of the
  dividend; HOL's \<open>mod\<close> rounds down. \<open>go_rem\<close> is Go's operator.
\<close>

definition go_rem :: "int \<Rightarrow> int \<Rightarrow> int" where
  "go_rem a b = sgn a * (\<bar>a\<bar> mod \<bar>b\<bar>)"

text \<open>\<open>add\<close>: addition (and subtraction) in GF(2^8) is exclusive or.\<close>

definition add_gf :: "u8 \<Rightarrow> u8 \<Rightarrow> u8" where
  "add_gf a b = a XOR b"

text \<open>
  \<open>mult\<close>: the product through the tables; the two constant-time selections set the
  result to zero when either factor is zero.
\<close>

definition mult_gf :: "u8 \<Rightarrow> u8 \<Rightarrow> u8" where
  "mult_gf a b =
     (let log_a = logTable ! unat a;
          log_b = logTable ! unat b;
          sum = go_rem (int (unat log_a) + int (unat log_b)) 255;
          ret = expTable ! nat sum;
          ret = (if a = 0 then 0 else ret);
          ret = (if b = 0 then 0 else ret)
      in ret)"

text \<open>\<open>div\<close>: panics on a zero divisor, otherwise the quotient through the tables.\<close>

definition div_gf :: "u8 \<Rightarrow> u8 \<Rightarrow> u8 option" where
  "div_gf a b =
     (if b = 0 then None
      else
        let logA = logTable ! unat a;
            logB = logTable ! unat b;
            diff = go_rem (int (unat logA) - int (unat logB)) 255;
            diff = (if diff < 0 then diff + 255 else diff);
            ret = expTable ! nat diff
        in Some (if a = 0 then 0 else ret))"

subsection \<open>Polynomials\<close>

record polynomial =
  coefficients :: "u8 list"

text \<open>
  One call of \<open>crypto/rand.Read\<close> on a buffer: \<open>None\<close> when the read fails, otherwise
  \<open>Some f\<close>, where \<open>f j\<close> is the byte written at position \<open>j\<close> of the buffer.
\<close>

type_synonym rand_read = "(nat \<Rightarrow> u8) option"

text \<open>
  \<open>makePolynomial\<close>: a buffer of \<open>degree + 1\<close> bytes (the sum is computed in
  \<open>uint8\<close>), the intercept at index 0, random bytes behind it. Writing the intercept
  panics when the buffer is empty, which needs \<open>degree = 255\<close>. On a failed read the
  source returns the error together with the polynomial; its caller only prints the
  latter, so the model keeps the error alone.
\<close>

definition makePolynomial :: "u8 \<Rightarrow> u8 \<Rightarrow> rand_read \<Rightarrow> failure + polynomial" where
  "makePolynomial intercept degree rd =
     (let n = unat (degree + 1) in
      if n = 0 then Inl (Panic ''index out of range'')
      else
        (case rd of
           None \<Rightarrow> Inl (Error ''rand.Read'')
         | Some f \<Rightarrow> Inr \<lparr>coefficients = intercept # map f [0..<n - 1]\<rparr>))"

text \<open>
  \<open>evaluate\<close>: Horner's method. The loop runs \<open>i\<close> from \<open>degree - 1\<close> down to 0;
  \<open>evaluate_loop cs x (Suc i) out\<close> is the iteration with index \<open>i\<close>.
\<close>

primrec evaluate_loop :: "u8 list \<Rightarrow> u8 \<Rightarrow> nat \<Rightarrow> u8 \<Rightarrow> u8" where
  "evaluate_loop cs x 0 out = out"
| "evaluate_loop cs x (Suc i) out = evaluate_loop cs x i (add_gf (mult_gf out x) (cs ! i))"

definition evaluate :: "polynomial \<Rightarrow> u8 \<Rightarrow> u8" where
  "evaluate p x =
     (if x = 0 then coefficients p ! 0
      else
        let degree = length (coefficients p) - 1;
            out = coefficients p ! degree
        in evaluate_loop (coefficients p) x degree out)"

text \<open>
  \<open>interpolatePolynomial\<close>: Lagrange interpolation at \<open>x\<close>. \<open>basis_loop\<close> is the inner
  loop over \<open>j\<close>, \<open>interpolate_loop\<close> the outer loop over \<open>i\<close>; \<open>None\<close> is the panic
  of \<open>div\<close>.
\<close>

fun basis_loop :: "u8 list \<Rightarrow> u8 \<Rightarrow> nat \<Rightarrow> nat list \<Rightarrow> u8 \<Rightarrow> u8 option" where
  "basis_loop xSamples x i [] basis = Some basis"
| "basis_loop xSamples x i (j # js) basis =
     (if i = j then basis_loop xSamples x i js basis
      else
        let num = add_gf x (xSamples ! j);
            denom = add_gf (xSamples ! i) (xSamples ! j)
        in case div_gf num denom of
             None \<Rightarrow> None
           | Some term \<Rightarrow> basis_loop xSamples x i js (mult_gf basis term))"

fun interpolate_loop ::
  "u8 list \<Rightarrow> u8 list \<Rightarrow> u8 \<Rightarrow> nat \<Rightarrow> nat list \<Rightarrow> u8 \<Rightarrow> u8 option" where
  "interpolate_loop xSamples ySamples x limit [] result = Some result"
| "interpolate_loop xSamples ySamples x limit (i # is) result =
     (case basis_loop xSamples x i [0..<limit] 1 of
        None \<Rightarrow> None
      | Some basis \<Rightarrow>
          let group = mult_gf (ySamples ! i) basis
          in interpolate_loop xSamples ySamples x limit is (add_gf result group))"

definition interpolatePolynomial :: "u8 list \<Rightarrow> u8 list \<Rightarrow> u8 \<Rightarrow> u8 option" where
  "interpolatePolynomial xSamples ySamples x =
     (let limit = length xSamples
      in interpolate_loop xSamples ySamples x limit [0..<limit] 0)"

definition ShareOverhead :: nat where
  "ShareOverhead = 1"

subsection \<open>Split\<close>

text \<open>
  \<open>Split\<close> draws its x coordinates from \<open>math/rand.Perm(255)\<close>, a permutation of
  \<open>0, ..., 254\<close>, and one \<open>rand.Read\<close> per byte of the secret. Both are arguments of
  the model: \<open>xCoordinates\<close> is the permutation and \<open>rnd idx\<close> the outcome of the read
  made for the byte at index \<open>idx\<close>. The source also prints each polynomial's
  coefficients on standard output; the model leaves the printing out.
\<close>

definition init_out :: "nat \<Rightarrow> nat \<Rightarrow> int list \<Rightarrow> u8 list list" where
  "init_out n parts xCoordinates =
     map (\<lambda>idx. (replicate (n + 3) 0)[n := of_int (xCoordinates ! idx) + 1]) [0..<parts]"

text \<open>The body of the inner loop, for the share at index \<open>i\<close> and the byte at \<open>idx\<close>.\<close>

definition fill_share ::
  "nat \<Rightarrow> polynomial \<Rightarrow> int list \<Rightarrow> nat \<Rightarrow> nat \<Rightarrow> u8 list list \<Rightarrow> u8 list list" where
  "fill_share n p xCoordinates idx i out =
     (let x = of_int (xCoordinates ! i) + 1;
          y = evaluate p x;
          out = out[i := (out ! i)[idx := y]];
          out = out[i := (out ! i)[n + 1 := coefficients p ! 0]];
          out = out[i := (out ! i)[n + 2 := coefficients p ! 1]]
      in out)"

text \<open>The loop over the bytes of the secret; it stops at the first failed read.\<close>

fun split_loop ::
  "u8 list \<Rightarrow> nat \<Rightarrow> u8 \<Rightarrow> int list \<Rightarrow> (nat \<Rightarrow> rand_read) \<Rightarrow> nat list \<Rightarrow>
   u8 list list \<Rightarrow> failure + u8 list list" where
  "split_loop secret parts degree xCoordinates rnd [] out = Inr out"
| "split_loop secret parts degree xCoordinates rnd (idx # idxs) out =
     (case makePolynomial (secret ! idx) degree (rnd idx) of
        Inl (Panic m) \<Rightarrow> Inl (Panic m)
      | Inl (Error m) \<Rightarrow> Inl (Error (''failed to generate polynomial: '' @ m))
      | Inr p \<Rightarrow>
          split_loop secret parts degree xCoordinates rnd idxs
            (fold (fill_share (length secret) p xCoordinates idx) [0..<parts] out))"

definition Split ::
  "u8 list \<Rightarrow> int \<Rightarrow> int \<Rightarrow> int list \<Rightarrow> (nat \<Rightarrow> rand_read) \<Rightarrow> failure + u8 list list" where
  "Split secret parts threshold xCoordinates rnd =
     (if parts < threshold then Inl (Error ''parts cannot be less than threshold'')
      else if parts > 255 then Inl (Error ''parts cannot exceed 255'')
      else if threshold < 2 then Inl (Error ''threshold must be at least 2'')
      else if threshold > 255 then Inl (Error ''threshold cannot exceed 255'')
      else if length secret = 0 then Inl (Error ''cannot split an empty secret'')
      else
        let out = init_out (length secret) (nat parts) xCoordinates
        in split_loop secret (nat parts) (of_int (threshold - 1)) xCoordinates rnd
             [0..<length secret] out)"

subsection \<open>Combine\<close>

text \<open>
  The loop that reads the x coordinate of every part, at index \<open>firstPartLen - 3\<close>
  (negative when the parts are two bytes long), and rejects a repeated one.
\<close>

fun sample_loop ::
  "int \<Rightarrow> u8 list list \<Rightarrow> (u8 \<Rightarrow> bool) \<Rightarrow> u8 list \<Rightarrow> failure + u8 list" where
  "sample_loop pos [] checkMap xSamples = Inr xSamples"
| "sample_loop pos (part # rest) checkMap xSamples =
     (if pos < 0 \<or> int (length part) \<le> pos then Inl (Panic ''index out of range'')
      else
        let samp = part ! nat pos in
        if checkMap samp then Inl (Error ''duplicate part detected'')
        else sample_loop pos rest (checkMap(samp := True)) (xSamples @ [samp]))"

text \<open>The loop that rebuilds one byte per index of the output buffer.\<close>

fun reconstruct_loop ::
  "u8 list list \<Rightarrow> u8 list \<Rightarrow> nat list \<Rightarrow> u8 list \<Rightarrow> failure + u8 list" where
  "reconstruct_loop parts xSamples [] secret = Inr secret"
| "reconstruct_loop parts xSamples (idx # idxs) secret =
     (let ySamples = map (\<lambda>part. part ! idx) parts
      in case interpolatePolynomial xSamples ySamples 0 of
           None \<Rightarrow> Inl (Panic ''divide by zero'')
         | Some val \<Rightarrow> reconstruct_loop parts xSamples idxs (secret[idx := val]))"

definition Combine :: "u8 list list \<Rightarrow> failure + u8 list" where
  "Combine parts =
     (if length parts < 2
      then Inl (Error ''less than two parts cannot be used to reconstruct the secret'')
      else
        let firstPartLen = length (parts ! 0) in
        if firstPartLen < 2 then Inl (Error ''parts must be at least two bytes'')
        else if list_ex (\<lambda>part. length part \<noteq> firstPartLen) (tl parts)
        then Inl (Error ''all parts must be the same length'')
        else
          let secret = replicate (firstPartLen - 1) (0 :: u8) in
          case sample_loop (int firstPartLen - 3) parts (\<lambda>_. False) [] of
            Inl e \<Rightarrow> Inl e
          | Inr xSamples \<Rightarrow> reconstruct_loop parts xSamples [0..<length secret] secret)"

section \<open>Blocks and their hashes (types/types.go)\<close>

text \<open>
  A Go \<open>string\<close> is a sequence of bytes, modelled by \<open>string\<close>; a \<open>[]byte\<close> is a
  list of \<open>u8\<close>. \<open>bytes_of\<close> is the conversion \<open>[]byte(s)\<close> and \<open>string_of\<close> the
  conversion \<open>string(b)\<close>; both keep the bytes as they are.
\<close>

definition bytes_of :: "string \<Rightarrow> u8 list" where
  "bytes_of s = map (\<lambda>c. of_nat (of_char c)) s"

definition string_of :: "u8 list \<Rightarrow> string" where
  "string_of b = map (\<lambda>w. char_of (unat w)) b"

text \<open>
  A Go \<open>error\<close>. \<open>ErrKeyNotFound\<close> is the error of the key-value store for a missing
  key; every other error is kept by its message.
\<close>

datatype go_error = ErrKeyNotFound | Err string

definition ServiceHash :: string where
  "ServiceHash = ''1d0684170dcf58ed2499d233be72b5dde48d8124cb617f1309bae85da2fe85cf''"

definition BlockHashPrefix :: string where
  "BlockHashPrefix = ''dd''"

record Result =
  CrawlerName :: string
  Data :: "u8 list"
  HasError :: bool
  Timestamp :: "64 word"
  Ticker :: string
  Hash :: string

text \<open>
  \<open>Payload\<close> has the type \<open>interface{}\<close>: \<open>None\<close> is \<open>nil\<close>, and \<open>'p\<close> stands for
  the values the field may hold.
\<close>

record 'p FullSignedBlock =
  Hash :: string
  Height :: "64 word"
  Timestamp :: "64 word"
  Payload :: "'p option"
  PreviousHash :: string
  Address :: string
  PreviousAddress :: string
  Memo :: string
  Evidence :: "Result list"

subsection \<open>Formatting\<close>

text \<open>
  \<open>fmt.Sprintf("%x", ...)\<close> on a byte array: two lower-case hexadecimal digits for
  each byte.
\<close>

definition digit :: "nat \<Rightarrow> char" where
  "digit n = ''0123456789abcdef'' ! n"

definition hex_byte :: "u8 \<Rightarrow> string" where
  "hex_byte w = [digit (unat w div 16), digit (unat w mod 16)]"

definition sprintf_x :: "u8 list \<Rightarrow> string" where
  "sprintf_x bs = concat (map hex_byte bs)"

text \<open>
  \<open>fmt.Sprintf("%02d", n)\<close> on an \<open>int\<close>: the decimal digits, padded with zeros to
  the width 2, the sign counting towards the width.
\<close>

fun decimal :: "nat \<Rightarrow> string" where
  "decimal n = (if n < 10 then [digit n] else decimal (n div 10) @ [digit (n mod 10)])"

declare decimal.simps [simp del]

definition sprintf_02d :: "int \<Rightarrow> string" where
  "sprintf_02d n =
     (if n < 0 then ''-'' @ decimal (nat (- n))
      else if n < 10 then ''0'' @ decimal (nat n)
      else decimal (nat n))"

subsection \<open>Hashing\<close>

text \<open>
  \<open>calculateHash\<close> takes an \<open>interface{}\<close> and serialises it with \<open>json.Marshal\<close>;
  the digest is \<open>sha256.Sum256\<close>. Both belong to Go's standard library and are arguments
  of the model: \<open>marshal\<close> returns the bytes or the error, \<open>sha256\<close> the 32 bytes of
  the digest. The source also logs a failed serialisation; the model leaves the log out.
\<close>

definition calculateHash ::
  "('a \<Rightarrow> go_error + u8 list) \<Rightarrow> (u8 list \<Rightarrow> u8 list) \<Rightarrow> 'a \<Rightarrow> string \<times> go_error option" where
  "calculateHash marshal sha256 obj =
     (case marshal obj of
        Inl err \<Rightarrow> ('''', Some err)
      | Inr bytes \<Rightarrow>
          let rawContent = ServiceHash @ '':'' @ string_of bytes;
              doubleHash = sprintf_x (sha256 (bytes_of rawContent));
              doubleHash = sprintf_x (sha256 (bytes_of doubleHash))
          in (doubleHash, None))"

text \<open>\<open>Result.CreateHash\<close>; the receiver is a pointer, the model returns the new value.\<close>

definition Result_CreateHash ::
  "(Result \<Rightarrow> go_error + u8 list) \<Rightarrow> (u8 list \<Rightarrow> u8 list) \<Rightarrow> Result \<Rightarrow> Result \<times> go_error option" where
  "Result_CreateHash marshal sha256 result =
     (let result = result\<lparr>Result.Hash := ''''\<rparr>;
          (hash, err) = calculateHash marshal sha256 result;
          result = (if err = None then result\<lparr>Result.Hash := hash\<rparr> else result)
      in (result, err))"

text \<open>
  \<open>FullSignedBlock.CreateHash\<close>. \<open>Second\<close> stands for
  \<open>time.Unix(sec, 0).Second()\<close>, the second within the minute of the local time, which
  Go documents to lie between 0 and 59; \<open>int64(block.Timestamp)\<close> is the signed reading
  \<open>sint\<close> of the 64 bits.
\<close>

definition FullSignedBlock_CreateHash ::
  "('p FullSignedBlock \<Rightarrow> go_error + u8 list) \<Rightarrow> (u8 list \<Rightarrow> u8 list) \<Rightarrow> (int \<Rightarrow> int) \<Rightarrow>
   'p FullSignedBlock \<Rightarrow> 'p FullSignedBlock \<times> go_error option" where
  "FullSignedBlock_CreateHash marshal sha256 Second block =
     (let block = block\<lparr>Hash := ''''\<rparr>;
          (hash, err) = calculateHash marshal sha256 block;
          block = (if err = None then block\<lparr>Hash := hash\<rparr> else block);
          seconds = Second (sint (Timestamp block));
          block = block\<lparr>Hash := BlockHashPrefix @ sprintf_02d seconds @ Hash block\<rparr>
      in (block, err))"

section \<open>The ledger store (database package)\<close>

definition HashKeyPrefix :: u8 where
  "HashKeyPrefix = 0x1"

definition TimestampKeyPrefix :: u8 where
  "TimestampKeyPrefix = 0x2"

definition HeightKeyPrefix :: u8 where
  "HeightKeyPrefix = 0x3"

definition FixedKeyPrefix :: u8 where
  "FixedKeyPrefix = 0xFF"

subsection \<open>The key-value store\<close>

text \<open>
  The store is Badger, a transactional key-value store, which is not part of the
  repository. The model keeps what the code relies on. The content of the store is a map
  from keys to values; a transaction works on a copy of it and sees its own writes.
  \<open>txn.Set\<close> may refuse a write: \<open>set_error\<close>, an argument of the model, gives the
  error of a write, if any. \<open>txn.Get\<close> fails with \<open>ErrKeyNotFound\<close> on a missing key.
  \<open>db.Update\<close> runs a function in a transaction and commits it only if the function
  returns no error; the commit itself may fail, by \<open>commit_error\<close>, and then nothing is
  written either. \<open>db.View\<close> runs a function in a read-only transaction. Reading the
  value of an item that was found (\<open>item.ValueCopy\<close>) succeeds.
\<close>

type_synonym kv = "u8 list \<rightharpoonup> u8 list"

record backend =
  set_error :: "kv \<Rightarrow> u8 list \<Rightarrow> u8 list \<Rightarrow> go_error option"
  commit_error :: "kv \<Rightarrow> kv \<Rightarrow> go_error option"

definition txn_Set :: "backend \<Rightarrow> kv \<Rightarrow> u8 list \<Rightarrow> u8 list \<Rightarrow> kv \<times> go_error option" where
  "txn_Set be txn key val =
     (case set_error be txn key val of
        Some err \<Rightarrow> (txn, Some err)
      | None \<Rightarrow> (txn(key \<mapsto> val), None))"

definition txn_Get :: "kv \<Rightarrow> u8 list \<Rightarrow> go_error + u8 list" where
  "txn_Get txn key = (case txn key of None \<Rightarrow> Inl ErrKeyNotFound | Some val \<Rightarrow> Inr val)"

definition db_Update ::
  "backend \<Rightarrow> kv \<Rightarrow> (kv \<Rightarrow> kv \<times> go_error option) \<Rightarrow> kv \<times> go_error option" where
  "db_Update be db fn =
     (case fn db of
        (txn, Some err) \<Rightarrow> (db, Some err)
      | (txn, None) \<Rightarrow>
          (case commit_error be db txn of
             Some err \<Rightarrow> (db, Some err)
           | None \<Rightarrow> (txn, None)))"

definition db_View :: "kv \<Rightarrow> (kv \<Rightarrow> 'a) \<Rightarrow> 'a" where
  "db_View db fn = fn db"

subsection \<open>Index keys\<close>

text \<open>\<open>binary.LittleEndian.PutUint64\<close>: the eight bytes of \<open>v\<close>, the lowest first.\<close>

definition PutUint64 :: "u8 list \<Rightarrow> 64 word \<Rightarrow> u8 list" where
  "PutUint64 b v =
     b[0 := ucast v,
       1 := ucast (drop_bit 8 v),
       2 := ucast (drop_bit 16 v),
       3 := ucast (drop_bit 24 v),
       4 := ucast (drop_bit 32 v),
       5 := ucast (drop_bit 40 v),
       6 := ucast (drop_bit 48 v),
       7 := ucast (drop_bit 56 v)]"

definition storeUIntIndex ::
  "backend \<Rightarrow> kv \<Rightarrow> 64 word \<Rightarrow> u8 list \<Rightarrow> u8 \<Rightarrow> kv \<times> go_error option" where
  "storeUIntIndex be txn key val prefix =
     (let index = replicate 8 0;
          index = PutUint64 index key;
          index = [prefix] @ index
      in txn_Set be txn index val)"

definition readUIntIndex :: "kv \<Rightarrow> 64 word \<Rightarrow> u8 \<Rightarrow> go_error + u8 list" where
  "readUIntIndex txn key prefix =
     (let index = replicate 8 0;
          index = PutUint64 index key;
          index = [prefix] @ index
      in case txn_Get txn index of
           Inl err \<Rightarrow> Inl err
         | Inr item \<Rightarrow> Inr item)"

definition storeStringIndex ::
  "backend \<Rightarrow> kv \<Rightarrow> string \<Rightarrow> u8 list \<Rightarrow> u8 \<Rightarrow> kv \<times> go_error option" where
  "storeStringIndex be txn key val prefix =
     (let index = [prefix] @ bytes_of key
      in txn_Set be txn index val)"

definition readStringIndex :: "kv \<Rightarrow> string \<Rightarrow> u8 \<Rightarrow> go_error + u8 list" where
  "readStringIndex txn key prefix =
     (let index = [prefix] @ bytes_of key
      in case txn_Get txn index of
           Inl err \<Rightarrow> Inl err
         | Inr item \<Rightarrow> Inr item)"

subsection \<open>Storing and finding blocks\<close>

text \<open>
  \<open>StoreBlock\<close>. The error of \<open>json.Marshal\<close> is assigned to \<open>err\<close> and overwritten
  by the result of the transaction; after a failed serialisation \<open>bytes\<close> is \<open>nil\<close>.
\<close>

definition StoreBlock ::
  "('p FullSignedBlock \<Rightarrow> go_error + u8 list) \<Rightarrow> backend \<Rightarrow> kv \<Rightarrow> 'p FullSignedBlock \<Rightarrow>
   kv \<times> go_error option" where
  "StoreBlock marshal be db block =
     (let bytes = (case marshal block of Inl err \<Rightarrow> [] | Inr bytes \<Rightarrow> bytes)
      in db_Update be db (\<lambda>txn.
           case storeStringIndex be txn (Hash block) bytes HashKeyPrefix of
             (txn, Some txErr) \<Rightarrow> (txn, Some txErr)
           | (txn, None) \<Rightarrow>
               (case storeUIntIndex be txn (Timestamp block) (bytes_of (Hash block))
                       TimestampKeyPrefix of
                  (txn, Some txErr) \<Rightarrow> (txn, Some txErr)
                | (txn, None) \<Rightarrow>
                    (case storeUIntIndex be txn (Height block) (bytes_of (Hash block))
                            HeightKeyPrefix of
                       (txn, Some txErr) \<Rightarrow> (txn, Some txErr)
                     | (txn, None) \<Rightarrow> (txn, None)))))"

text \<open>
  The zero value of \<open>FullSignedBlock\<close>, which the lookups declare and hand to
  \<open>json.Unmarshal\<close>. \<open>unmarshal bytes block\<close> stands for
  \<open>json.Unmarshal(bytes, &block)\<close>: it returns the block as the call leaves it, and the
  error, if any. Every lookup returns the block together with the error.
\<close>

definition zero_block :: "'p FullSignedBlock" where
  "zero_block =
     \<lparr>Hash = '''', Height = 0, Timestamp = 0, Payload = None, PreviousHash = '''',
      Address = '''', PreviousAddress = '''', Memo = '''', Evidence = []\<rparr>"

definition GetBlock ::
  "(u8 list \<Rightarrow> 'p FullSignedBlock \<Rightarrow> 'p FullSignedBlock \<times> go_error option) \<Rightarrow> kv \<Rightarrow> string \<Rightarrow>
   'p FullSignedBlock \<times> go_error option" where
  "GetBlock unmarshal db hash =
     (let block = zero_block
      in db_View db (\<lambda>txn.
           case readStringIndex txn hash HashKeyPrefix of
             Inl err \<Rightarrow> (block, Some err)
           | Inr bytes \<Rightarrow> unmarshal bytes block))"

definition FindBlockByTimestamp ::
  "(u8 list \<Rightarrow> 'p FullSignedBlock \<Rightarrow> 'p FullSignedBlock \<times> go_error option) \<Rightarrow> kv \<Rightarrow> 64 word \<Rightarrow>
   'p FullSignedBlock \<times> go_error option" where
  "FindBlockByTimestamp unmarshal db timestamp =
     (let block = zero_block
      in db_View db (\<lambda>txn.
           case readUIntIndex txn timestamp TimestampKeyPrefix of
             Inl err \<Rightarrow> (block, Some err)
           | Inr hashBytes \<Rightarrow>
               (case readStringIndex txn (string_of hashBytes) HashKeyPrefix of
                  Inl err \<Rightarrow> (block, Some err)
                | Inr bytes \<Rightarrow> unmarshal bytes block)))"

definition FindBlockByHeight ::
  "(u8 list \<Rightarrow> 'p FullSignedBlock \<Rightarrow> 'p FullSignedBlock \<times> go_error option) \<Rightarrow> kv \<Rightarrow> 64 word \<Rightarrow>
   'p FullSignedBlock \<times> go_error option" where
  "FindBlockByHeight unmarshal db height =
     (let block = zero_block
      in db_View db (\<lambda>txn.
           case readUIntIndex txn height HeightKeyPrefix of
             Inl err \<Rightarrow> (block, Some err)
           | Inr hashBytes \<Rightarrow>
               (case readStringIndex txn (string_of hashBytes) HashKeyPrefix of
                  Inl err \<Rightarrow> (block, Some err)
                | Inr bytes \<Rightarrow> unmarshal bytes block)))"

text \<open>\<open>StoreValue\<close> and \<open>GetValue\<close>; the latter reads inside \<open>db.Update\<close>.\<close>

definition StoreValue :: "backend \<Rightarrow> kv \<Rightarrow> string \<Rightarrow> u8 list \<Rightarrow> kv \<times> go_error option" where
  "StoreValue be db key val =
     db_Update be db (\<lambda>txn. storeStringIndex be txn key val FixedKeyPrefix)"

definition GetValue :: "backend \<Rightarrow> kv \<Rightarrow> string \<Rightarrow> u8 list \<times> go_error option" where
  "GetValue be db key =
     (case readStringIndex db key FixedKeyPrefix of
        Inl err \<Rightarrow> ([], Some err)
      | Inr bytes \<Rightarrow> (bytes, commit_error be db db))"

text \<open>
  The keys that the four index functions build: the prefix byte, then the eight bytes of
  the number or the bytes of the string.
\<close>

abbreviation uint_index :: "u8 \<Rightarrow> 64 word \<Rightarrow> u8 list" where
  "uint_index prefix key \<equiv> [prefix] @ PutUint64 (replicate 8 0) key"

abbreviation string_index :: "u8 \<Rightarrow> string \<Rightarrow> u8 list" where
  "string_index prefix key \<equiv> [prefix] @ bytes_of key"

text \<open>
  The value that \<open>StoreBlock\<close> writes under the hash of the block: the serialised
  block, or \<open>nil\<close> after a failed serialisation.
\<close>

abbreviation stored_bytes :: "('b \<Rightarrow> go_error + u8 list) \<Rightarrow> 'b \<Rightarrow> u8 list" where
  "stored_bytes marshal block \<equiv> (case marshal block of Inl err \<Rightarrow> [] | Inr bytes \<Rightarrow> bytes)"

section \<open>Properties of the secret sharing\<close>

subsection \<open>The shape of the shares\<close>


lemma map_length_update_inner:
  "map length (out[i := (out ! i)[k := v]]) = map length out"
proof (cases "i < length out")
  case True
  then show ?thesis
    by (simp add: map_update list_update_same_conv)
next
  case False
  then have "length out \<le> i" by simp
  then show ?thesis by (simp add: list_update_beyond)
qed

lemma map_length_fill_share:
  "map length (fill_share n p xs idx i out) = map length out"
  by (simp only: fill_share_def Let_def map_length_update_inner)

lemma map_length_fold_fill_share:
  "map length (fold (fill_share n p xs idx) js out) = map length out"
  by (induction js arbitrary: out) (simp_all add: map_length_fill_share)

lemma map_length_split_loop:
  "split_loop secret parts degree xs rnd idxs out = Inr out' \<Longrightarrow>
   map length out' = map length out"
proof (induction idxs arbitrary: out)
  case Nil
  then show ?case by simp
next
  case (Cons idx idxs)
  then show ?case
    by (auto split: sum.splits failure.splits simp: map_length_fold_fill_share)
qed

lemma map_length_init_out:
  "map length (init_out n parts xs) = replicate parts (n + 3)"
  by (simp add: init_out_def list_eq_iff_nth_eq)

lemma split_loop_append:
  "split_loop secret parts degree xs rnd (as @ bs) out =
     (case split_loop secret parts degree xs rnd as out of
        Inl e \<Rightarrow> Inl e
      | Inr out' \<Rightarrow> split_loop secret parts degree xs rnd bs out')"
  by (induction as arbitrary: out) (simp_all split: sum.splits failure.splits)

lemma split_loop_succeeds:
  "\<forall>idx\<in>set idxs. rnd idx \<noteq> None \<Longrightarrow> unat (degree + 1) \<noteq> 0 \<Longrightarrow>
   \<exists>out'. split_loop secret parts degree xs rnd idxs out = Inr out'"
  by (induction idxs arbitrary: out) (auto simp: makePolynomial_def Let_def split: option.splits)

lemma degree_of_threshold:
  "2 \<le> threshold \<Longrightarrow> threshold \<le> 255 \<Longrightarrow>
   unat ((of_int (threshold - 1) :: u8) + 1) = nat threshold"
proof -
  assume t: "2 \<le> threshold" "threshold \<le> 255"
  have "(of_int (threshold - 1) :: u8) + 1 = of_int threshold" by simp
  moreover have "unat (of_int threshold :: u8) = nat (take_bit 8 threshold)"
    by (simp add: unat_eq_nat_uint uint_word_of_int take_bit_eq_mod)
  moreover have "take_bit 8 threshold = threshold"
    using t by (simp add: take_bit_int_eq_self)
  ultimately show ?thesis by simp
qed

lemma fill_share_other:
  "j \<noteq> i \<Longrightarrow> fill_share n p xs idx i out ! j = out ! j"
  by (simp add: fill_share_def Let_def)

lemma fill_share_self:
  assumes "i < length out" and "length (out ! i) = n + 3"
  shows "fill_share n p xs idx i out ! i ! (n + 1) = coefficients p ! 0"
    and "fill_share n p xs idx i out ! i ! (n + 2) = coefficients p ! 1"
  using assms by (simp_all add: fill_share_def Let_def nth_list_update)

lemma fold_fill_share_tail:
  assumes "map length out = replicate parts (n + 3)" and "m \<le> parts" and "i < m"
  shows "fold (fill_share n p xs idx) [0..<m] out ! i ! (n + 1) = coefficients p ! 0 \<and>
         fold (fill_share n p xs idx) [0..<m] out ! i ! (n + 2) = coefficients p ! 1"
  using assms(2,3)
proof (induction m)
  case 0
  then show ?case by simp
next
  case (Suc m)
  let ?out = "fold (fill_share n p xs idx) [0..<m] out"
  have len: "map length ?out = replicate parts (n + 3)"
    using assms(1) by (simp add: map_length_fold_fill_share)
  have m: "m < length ?out"
    using Suc.prems(1) len by (metis Suc_le_lessD length_map length_replicate)
  have lm: "length (?out ! m) = n + 3"
    using len m Suc.prems(1) by (metis Suc_le_lessD nth_map nth_replicate)
  show ?case
  proof (cases "i = m")
    case True
    then show ?thesis
      using fill_share_self [OF m lm] by simp
  next
    case False
    then have "i < m" using Suc.prems(2) by simp
    then show ?thesis
      using Suc.IH Suc.prems(1) False by (simp add: fill_share_other)
  qed
qed

lemma Split_Inr_valid:
  assumes "Split secret parts threshold xCoordinates rnd = Inr out"
  shows "threshold \<le> parts \<and> parts \<le> 255 \<and> 2 \<le> threshold \<and> secret \<noteq> []"
  using assms by (auto simp: Split_def split: if_splits)

lemma Split_Inr_shape:
  assumes "Split secret parts threshold xCoordinates rnd = Inr out"
  shows "map length out = replicate (nat parts) (length secret + 3)"
proof -
  from assms Split_Inr_valid [OF assms] have
    "split_loop secret (nat parts) (of_int (threshold - 1)) xCoordinates rnd [0..<length secret]
       (init_out (length secret) (nat parts) xCoordinates) = Inr out"
    by (simp add: Split_def Let_def split: if_splits)
  then show ?thesis
    using map_length_split_loop map_length_init_out by metis
qed

lemma Split_Inr_lengths:
  assumes "Split secret parts threshold xCoordinates rnd = Inr out"
  shows "int (length out) = parts" and "\<forall>s\<in>set out. length s = length secret + 3"
proof -
  note len = Split_Inr_shape [OF assms]
  from len have "length out = nat parts"
    by (metis length_map length_replicate)
  then show "int (length out) = parts"
    using Split_Inr_valid [OF assms] by simp
  show "\<forall>s\<in>set out. length s = length secret + 3"
  proof
    fix s assume "s \<in> set out"
    then have "length s \<in> set (map length out)" by simp
    then show "length s = length secret + 3" unfolding len by simp
  qed
qed

lemma length_reconstruct_loop:
  "reconstruct_loop parts xSamples idxs secret = Inr s \<Longrightarrow> length s = length secret"
  by (induction idxs arbitrary: secret) (auto simp: Let_def split: option.splits)

lemma length_Combine:
  assumes "Combine parts = Inr s"
  shows "parts \<noteq> [] \<and> length s = length (parts ! 0) - 1"
proof -
  from assms have two: "\<not> length parts < 2"
    by (auto simp: Combine_def split: if_splits)
  with assms obtain xSamples where
    "reconstruct_loop parts xSamples [0..<length (parts ! 0) - 1]
       (replicate (length (parts ! 0) - 1) 0) = Inr s"
    by (auto simp: Combine_def Let_def split: if_splits sum.splits)
  from length_reconstruct_loop [OF this] two show ?thesis by auto
qed

subsection \<open>Reconstruction\<close>

text \<open>
  C4. The claim is that \<open>Combine\<close>, applied to the shares of \<open>Split\<close> or to any of
  their sub-lists, returns exactly the original secret. On the code it never does: every
  share carries \<open>length secret + 3\<close> bytes, \<open>Combine\<close> rebuilds one byte for each but
  the last, so whatever it returns on shares of \<open>Split\<close> is two bytes longer than the
  secret, and differs from it.
\<close>

theorem Combine_Split_two_bytes_longer:
  assumes "Split secret parts threshold xCoordinates rnd = Inr out"
    and "length xCoordinates = 255"
    and "set sub \<subseteq> set out"
    and "Combine sub = Inr s"
  shows "length s = length secret + 2 \<and> s \<noteq> secret"
proof -
  from length_Combine [OF assms(4)] have sub: "sub \<noteq> []" and s: "length s = length (sub ! 0) - 1"
    by simp_all
  from sub have "sub ! 0 \<in> set sub"
    by simp
  with assms(3) have "sub ! 0 \<in> set out"
    by blast
  with Split_Inr_lengths(2) [OF assms(1)] have "length (sub ! 0) = length secret + 3"
    by blast
  with s show ?thesis by auto
qed

theorem Combine_Split_two_bytes_longer_witness:
  "Split [0x41] 2 2 (map int [0..<255]) (\<lambda>_. Some (\<lambda>_. 7)) = Inr [[70, 1, 65, 7], [79, 2, 65, 7]]
   \<and> Combine [[70, 1, 65, 7], [79, 2, 65, 7]] = Inr [0x41, 0, 0x41]
   \<and> length [0x41, 0, 0x41 :: u8] = length [0x41 :: u8] + 2
   \<and> [0x41, 0, 0x41] \<noteq> [0x41 :: u8]"
proof -
  have run: "Split [0x41] 2 2 (map int [0..<255]) (\<lambda>_. Some (\<lambda>_. 7)) = Inr [[70, 1, 65, 7], [79, 2, 65, 7]]"
    by code_simp
  have len: "length (map int [0..<255]) = 255"
    by simp
  have sub: "set [[70, 1, 65, 7], [79, 2, 65, 7 :: u8]] \<subseteq> set [[70, 1, 65, 7], [79, 2, 65, 7]]"
    by simp
  have comb: "Combine [[70, 1, 65, 7], [79, 2, 65, 7]] = Inr [0x41, 0, 0x41]"
    by code_simp
  from Combine_Split_two_bytes_longer [OF run len sub comb] run comb show ?thesis
    by (intro conjI) simp_all
qed

subsection \<open>What a single share reveals\<close>

text \<open>
  C5. Whenever \<open>Split\<close> succeeds, every share holds, at offset \<open>length secret + 1\<close>,
  the intercept of the polynomial made for the last byte of the secret, which is that
  byte itself, and at offset \<open>length secret + 2\<close> the second coefficient of the same
  polynomial. Both bytes are the same in all shares, so one share alone gives away the
  last byte of the secret.
\<close>

theorem Split_leaks_last_byte:
  assumes "Split secret parts threshold xCoordinates rnd = Inr out"
    and "length xCoordinates = 255"
  shows "\<exists>p. makePolynomial (last secret) (of_int (threshold - 1)) (rnd (length secret - 1)) = Inr p
           \<and> length (coefficients p) = nat threshold
           \<and> coefficients p ! 0 = last secret
           \<and> (\<forall>s\<in>set out. s ! (length secret + 1) = coefficients p ! 0
                             \<and> s ! (length secret + 2) = coefficients p ! 1)"
proof -
  let ?n = "length secret"
  let ?d = "of_int (threshold - 1) :: u8"
  from assms(1) have valid: "threshold \<le> parts" "parts \<le> 255" "2 \<le> threshold" "secret \<noteq> []"
    by (auto simp: Split_def split: if_splits)
  let ?out0 = "init_out ?n (nat parts) xCoordinates"
  from assms(1) valid have run: "split_loop secret (nat parts) ?d xCoordinates rnd [0..<?n] ?out0 = Inr out"
    by (simp add: Split_def Let_def split: if_splits)
  have upt: "[0..<?n] = [0..<?n - 1] @ [?n - 1]"
    using valid(4) by (metis Suc_diff_1 length_greater_0_conv upt_Suc_append zero_le)
  from run obtain out1 where
    first: "split_loop secret (nat parts) ?d xCoordinates rnd [0..<?n - 1] ?out0 = Inr out1" and
    final: "split_loop secret (nat parts) ?d xCoordinates rnd [?n - 1] out1 = Inr out"
    by (subst (asm) upt) (auto simp: split_loop_append split: sum.splits)
  from final obtain p where
    p: "makePolynomial (secret ! (?n - 1)) ?d (rnd (?n - 1)) = Inr p" and
    out: "out = fold (fill_share ?n p xCoordinates (?n - 1)) [0..<nat parts] out1"
    by (auto split: sum.splits failure.splits)
  have lastb: "secret ! (?n - 1) = last secret"
    using valid(4) by (simp add: last_conv_nth)
  have deg: "unat (?d + 1) = nat threshold"
    using valid by (intro degree_of_threshold) simp_all
  from p deg valid have coeffs: "length (coefficients p) = nat threshold" "coefficients p ! 0 = last secret"
    by (auto simp: makePolynomial_def Let_def last_conv_nth split: option.splits if_splits)
  have len1: "map length out1 = replicate (nat parts) (?n + 3)"
    using map_length_split_loop [OF first] by (simp add: map_length_init_out)
  have lenout: "length out = nat parts"
    using len1 out by (metis length_map length_replicate map_length_fold_fill_share)
  have "\<forall>s\<in>set out. s ! (?n + 1) = coefficients p ! 0 \<and> s ! (?n + 2) = coefficients p ! 1"
  proof
    fix s assume "s \<in> set out"
    then obtain i where i: "i < nat parts" "s = out ! i"
      using lenout by (metis in_set_conv_nth)
    show "s ! (?n + 1) = coefficients p ! 0 \<and> s ! (?n + 2) = coefficients p ! 1"
      using fold_fill_share_tail [OF len1 order_refl i(1)] i(2) out by simp
  qed
  with p coeffs lastb show ?thesis by auto
qed

theorem Split_leaks_last_byte_witness:
  "Split [0x41] 2 2 (map int [0..<255]) (\<lambda>_. Some (\<lambda>_. 7)) = Inr [[70, 1, 65, 7], [79, 2, 65, 7]]
   \<and> (\<exists>p. makePolynomial (last [0x41]) (of_int (2 - 1)) ((\<lambda>_. Some (\<lambda>_. 7)) (length [0x41 :: u8] - 1)) = Inr p
           \<and> length (coefficients p) = nat 2
           \<and> coefficients p ! 0 = last [0x41]
           \<and> (\<forall>s\<in>set [[70, 1, 65, 7], [79, 2, 65, 7]]. s ! (length [0x41 :: u8] + 1) = coefficients p ! 0
                             \<and> s ! (length [0x41 :: u8] + 2) = coefficients p ! 1))"
proof -
  have run: "Split [0x41] 2 2 (map int [0..<255]) (\<lambda>_. Some (\<lambda>_. 7)) = Inr [[70, 1, 65, 7], [79, 2, 65, 7]]"
    by code_simp
  have len: "length (map int [0..<255]) = 255"
    by simp
  from Split_leaks_last_byte [OF run len] run show ?thesis
    by (intro conjI)
qed

subsection \<open>The length of a share\<close>

text \<open>
  C6. The claim is that every share is \<open>ShareOverhead\<close>, one byte, longer than the
  secret. On the code every share is three bytes longer: the tag and the two bytes that
  the loop of \<open>Split\<close> copies from the polynomial. \<open>Split\<close> returns as many shares
  as \<open>parts\<close> asks for.
\<close>

theorem Split_share_length:
  assumes "Split secret parts threshold xCoordinates rnd = Inr out"
    and "length xCoordinates = 255"
  shows "int (length out) = parts \<and> (\<forall>s\<in>set out. length s = length secret + ShareOverhead + 2)"
  using Split_Inr_lengths [OF assms(1)] by (simp add: ShareOverhead_def)

theorem Split_share_length_witness:
  "Split [0x41] 2 2 (map int [0..<255]) (\<lambda>_. Some (\<lambda>_. 7)) = Inr [[70, 1, 65, 7], [79, 2, 65, 7]]
   \<and> int (length [[70, 1, 65, 7], [79, 2, 65, 7 :: u8]]) = 2
   \<and> length [70, 1, 65, 7 :: u8] = length [0x41 :: u8] + ShareOverhead + 2
   \<and> length [79, 2, 65, 7 :: u8] = length [0x41 :: u8] + ShareOverhead + 2"
proof -
  have run: "Split [0x41] 2 2 (map int [0..<255]) (\<lambda>_. Some (\<lambda>_. 7)) = Inr [[70, 1, 65, 7], [79, 2, 65, 7]]"
    by code_simp
  have len: "length (map int [0..<255]) = 255"
    by simp
  from Split_share_length [OF run len] run show ?thesis
    by simp
qed

subsection \<open>When Split fails\<close>

text \<open>
  C7. With a source of randomness that does not fail, \<open>Split\<close> returns an error
  value exactly when \<open>parts < threshold\<close>, \<open>parts > 255\<close>, \<open>threshold < 2\<close>,
  \<open>threshold > 255\<close> or the secret is empty; it never panics; and for every non-empty
  secret with \<open>2 \<le> threshold \<le> parts \<le> 255\<close> it returns \<open>parts\<close> shares and no
  error.
\<close>

theorem Split_error_iff:
  assumes "length xCoordinates = 255"
    and "\<forall>idx<length secret. rnd idx \<noteq> None"
  shows "((\<exists>m. Split secret parts threshold xCoordinates rnd = Inl (Error m)) \<longleftrightarrow>
            (parts < threshold \<or> parts > 255 \<or> threshold < 2 \<or> threshold > 255 \<or> secret = []))
       \<and> (\<forall>m. Split secret parts threshold xCoordinates rnd \<noteq> Inl (Panic m))
       \<and> (2 \<le> threshold \<and> threshold \<le> parts \<and> parts \<le> 255 \<and> secret \<noteq> [] \<longrightarrow>
            (\<exists>out. Split secret parts threshold xCoordinates rnd = Inr out \<and> int (length out) = parts))"
proof (cases "2 \<le> threshold \<and> threshold \<le> parts \<and> parts \<le> 255 \<and> secret \<noteq> []")
  case True
  then have deg: "unat ((of_int (threshold - 1) :: u8) + 1) \<noteq> 0"
    using degree_of_threshold [of threshold] by simp
  have "\<forall>idx\<in>set [0..<length secret]. rnd idx \<noteq> None"
    using assms(2) by simp
  from split_loop_succeeds [OF this deg] obtain out where
    "split_loop secret (nat parts) (of_int (threshold - 1)) xCoordinates rnd [0..<length secret]
       (init_out (length secret) (nat parts) xCoordinates) = Inr out"
    by blast
  with True have run: "Split secret parts threshold xCoordinates rnd = Inr out"
    by (simp add: Split_def Let_def)
  from Split_Inr_lengths(1) [OF run] have "int (length out) = parts" .
  with run True show ?thesis by auto
next
  case False
  then have "\<exists>m. Split secret parts threshold xCoordinates rnd = Inl (Error m)"
    by (auto simp: Split_def)
  with False show ?thesis by auto
qed

theorem Split_error_iff_witness:
  "Split [0x41] 1 2 (map int [0..<255]) (\<lambda>_. Some (\<lambda>_. 7))
     = Inl (Error ''parts cannot be less than threshold'')
   \<and> (\<exists>m. Split [0x41] 1 2 (map int [0..<255]) (\<lambda>_. Some (\<lambda>_. 7)) = Inl (Error m))
   \<and> (\<exists>m. Split [] 2 2 (map int [0..<255]) (\<lambda>_. Some (\<lambda>_. 7)) = Inl (Error m))
   \<and> \<not> (\<exists>m. Split [0x41] 2 2 (map int [0..<255]) (\<lambda>_. Some (\<lambda>_. 7)) = Inl (Error m))
   \<and> (\<exists>out. Split [0x41] 2 2 (map int [0..<255]) (\<lambda>_. Some (\<lambda>_. 7)) = Inr out \<and> int (length out) = 2)"
proof -
  have len: "length (map int [0..<255]) = 255"
    by simp
  have rnd: "\<forall>idx<length [0x41 :: u8]. (\<lambda>_. Some (\<lambda>_. 7 :: u8)) idx \<noteq> None"
    by simp
  have rnd0: "\<forall>idx<length ([] :: u8 list). (\<lambda>_. Some (\<lambda>_. 7 :: u8)) idx \<noteq> None"
    by simp
  have message: "Split [0x41] 1 2 (map int [0..<255]) (\<lambda>_. Some (\<lambda>_. 7))
     = Inl (Error ''parts cannot be less than threshold'')"
    by (simp add: Split_def)
  from Split_error_iff [OF len rnd, of 1 2] have few:
    "\<exists>m. Split [0x41] 1 2 (map int [0..<255]) (\<lambda>_. Some (\<lambda>_. 7)) = Inl (Error m)"
    by simp
  from Split_error_iff [OF len rnd0, of 2 2] have empty:
    "\<exists>m. Split [] 2 2 (map int [0..<255]) (\<lambda>_. Some (\<lambda>_. 7)) = Inl (Error m)"
    by simp
  from Split_error_iff [OF len rnd, of 2 2] have valid:
    "\<not> (\<exists>m. Split [0x41] 2 2 (map int [0..<255]) (\<lambda>_. Some (\<lambda>_. 7)) = Inl (Error m))"
    "\<exists>out. Split [0x41] 2 2 (map int [0..<255]) (\<lambda>_. Some (\<lambda>_. 7)) = Inr out \<and> int (length out) = 2"
    by simp_all
  from message few empty valid show ?thesis
    by (intro conjI)
qed

section \<open>Properties of the hashes\<close>

lemma decimal_digit: "n < 10 \<Longrightarrow> decimal n = [digit n]"
  by (subst decimal.simps) simp

lemma decimal_two_digits:
  assumes "10 \<le> n" and "n < 100"
  shows "decimal n = [digit (n div 10), digit (n mod 10)]"
proof -
  from assms have "n div 10 < 10"
    by simp
  then have "decimal (n div 10) = [digit (n div 10)]"
    by (rule decimal_digit)
  with assms show ?thesis
    by (subst decimal.simps) simp
qed

lemma sprintf_02d_two_digits:
  assumes "0 \<le> s" and "s < 60"
  shows "sprintf_02d s = [digit (nat s div 10), digit (nat s mod 10)]"
proof (cases "s < 10")
  case True
  with assms have "nat s < 10" "nat s div 10 = 0"
    by simp_all
  with True assms show ?thesis
    by (simp add: sprintf_02d_def decimal_digit digit_def)
next
  case False
  with assms have "10 \<le> nat s" "nat s < 100"
    by simp_all
  with False assms show ?thesis
    by (simp add: sprintf_02d_def decimal_two_digits)
qed

lemma calculateHash_Inr:
  "marshal obj = Inr bytes \<Longrightarrow>
   calculateHash marshal sha obj =
     (sprintf_x (sha (bytes_of (sprintf_x (sha (bytes_of (ServiceHash @ '':'' @ string_of bytes)))))),
      None)"
  by (simp add: calculateHash_def Let_def)

lemma calculateHash_Inl:
  "marshal obj = Inl err \<Longrightarrow> calculateHash marshal sha obj = ([], Some err)"
  by (simp add: calculateHash_def)

text \<open>
  C2. The claim is made for every \<open>Result\<close> and every block; it holds for those whose
  serialisation succeeds. Then \<open>CreateHash\<close> sets the hash of a \<open>Result\<close> to the
  hexadecimal form of the digest of the hexadecimal form of the digest of
  \<open>ServiceHash\<close>, a colon and the serialisation of the object with its hash cleared.
  For a block the hash is this string behind \<open>dd\<close> and the two decimal digits of the
  second of the minute of the timestamp. Both return no error.
\<close>

theorem CreateHash_double_hash:
  "(marshalR (result\<lparr>Result.Hash := []\<rparr>) = Inr bytes \<longrightarrow>
      Result_CreateHash marshalR sha result =
        (result\<lparr>Result.Hash :=
            sprintf_x (sha (bytes_of (sprintf_x (sha (bytes_of
              (ServiceHash @ '':'' @ string_of bytes))))))\<rparr>,
         None))
   \<and> (marshalB (block\<lparr>Hash := []\<rparr>) = Inr bytes
      \<and> 0 \<le> Second (sint (Timestamp block)) \<and> Second (sint (Timestamp block)) < 60 \<longrightarrow>
      FullSignedBlock_CreateHash marshalB sha Second block =
        (block\<lparr>Hash :=
            ''dd''
            @ [digit (nat (Second (sint (Timestamp block))) div 10),
               digit (nat (Second (sint (Timestamp block))) mod 10)]
            @ sprintf_x (sha (bytes_of (sprintf_x (sha (bytes_of
                (ServiceHash @ '':'' @ string_of bytes))))))\<rparr>,
         None))"
  by (simp add: Result_CreateHash_def FullSignedBlock_CreateHash_def calculateHash_Inr
      sprintf_02d_two_digits BlockHashPrefix_def Let_def)

theorem CreateHash_double_hash_witness:
  "Result_CreateHash (\<lambda>r. Inr (bytes_of (CrawlerName r))) (\<lambda>_. [0xab, 0x01])
      \<lparr>CrawlerName = ''binance'', Data = [], HasError = False, Timestamp = 0, Ticker = ''BTC'',
       Hash = ''old''\<rparr>
     = (\<lparr>CrawlerName = ''binance'', Data = [], HasError = False, Timestamp = 0, Ticker = ''BTC'',
         Hash = ''ab01''\<rparr>, None)
   \<and> FullSignedBlock_CreateHash (\<lambda>b. Inr (bytes_of (Memo b))) (\<lambda>_. [0xab, 0x01])
      (\<lambda>sec. sec mod 60)
      ((zero_block :: unit FullSignedBlock)\<lparr>Hash := ''old'', Timestamp := 67\<rparr>)
     = ((zero_block :: unit FullSignedBlock)\<lparr>Hash := ''dd07ab01'', Timestamp := 67\<rparr>, None)"
proof -
  let ?r = "\<lparr>CrawlerName = ''binance'', Data = [], HasError = False, Timestamp = 0,
             Ticker = ''BTC'', Hash = ''old''\<rparr>"
  let ?b = "(zero_block :: unit FullSignedBlock)\<lparr>Hash := ''old'', Timestamp := 67\<rparr>"
  let ?mR = "\<lambda>r :: Result. Inr (bytes_of (CrawlerName r)) :: go_error + u8 list"
  let ?mB = "\<lambda>b :: unit FullSignedBlock. Inr (bytes_of (Memo b)) :: go_error + u8 list"
  let ?h = "\<lambda>_ :: u8 list. [0xab, 0x01 :: u8]"
  let ?sec = "\<lambda>sec :: int. sec mod 60"
  have digest: "sprintf_x [0xab, 0x01] = ''ab01''"
    by (simp add: sprintf_x_def hex_byte_def digit_def)
  have seconds: "?sec (sint (Timestamp ?b)) = 7"
    by simp
  have encR: "?mR (?r\<lparr>Result.Hash := []\<rparr>) = Inr (bytes_of ''binance'')"
    by simp
  have encB: "?mB (?b\<lparr>Hash := []\<rparr>) = Inr (bytes_of (Memo ?b))
      \<and> 0 \<le> ?sec (sint (Timestamp ?b)) \<and> ?sec (sint (Timestamp ?b)) < 60"
    by simp
  note hashes = CreateHash_double_hash
    [where marshalR = ?mR and marshalB = ?mB and sha = ?h and Second = ?sec
       and result = ?r and block = ?b]
  from hashes [where bytes = "bytes_of ''binance''"] encR have
    "Result_CreateHash ?mR ?h ?r = (?r\<lparr>Result.Hash := sprintf_x [0xab, 0x01]\<rparr>, None)"
    by blast
  then have one: "Result_CreateHash ?mR ?h ?r = (?r\<lparr>Result.Hash := ''ab01''\<rparr>, None)"
    unfolding digest .
  from hashes [where bytes = "bytes_of (Memo ?b)"] encB have
    "FullSignedBlock_CreateHash ?mB ?h ?sec ?b =
       (?b\<lparr>Hash := ''dd''
            @ [digit (nat (?sec (sint (Timestamp ?b))) div 10),
               digit (nat (?sec (sint (Timestamp ?b))) mod 10)]
            @ sprintf_x [0xab, 0x01]\<rparr>, None)"
    by blast
  then have two: "FullSignedBlock_CreateHash ?mB ?h ?sec ?b = (?b\<lparr>Hash := ''dd07ab01''\<rparr>, None)"
    unfolding digest seconds by (simp add: digit_def)
  from one two show ?thesis
    by simp
qed

text \<open>
  On a block that cannot be serialised the guard \<open>err == nil\<close> of \<open>CreateHash\<close>
  keeps the cleared hash, so the hash ends up as \<open>dd\<close> and the two digits, with no
  double hash behind them. In the example the digest of every input is the two bytes
  \<open>ab 01\<close>, so the double hash of any serialisation would be \<open>ab01\<close>.
\<close>

theorem CreateHash_double_hash_counterexample:
  "FullSignedBlock_CreateHash (\<lambda>_. Inl (Err ''json: unsupported value'')) (\<lambda>_. [0xab, 0x01])
      (\<lambda>sec. sec mod 60)
      (zero_block\<lparr>Hash := ''old'', Timestamp := 67, Payload := Some ''NaN''\<rparr>)
     = (zero_block\<lparr>Hash := ''dd07'', Timestamp := 67, Payload := Some ''NaN''\<rparr>,
        Some (Err ''json: unsupported value''))
   \<and> length ''dd07'' = 4
   \<and> ''dd07'' \<noteq> ''dd'' @ ''07'' @ sprintf_x [0xab, 0x01]"
proof -
  have run: "FullSignedBlock_CreateHash (\<lambda>_. Inl (Err ''json: unsupported value'')) (\<lambda>_. [0xab, 0x01])
      (\<lambda>sec. sec mod 60)
      (zero_block\<lparr>Hash := ''old'', Timestamp := 67, Payload := Some ''NaN''\<rparr>)
     = (zero_block\<lparr>Hash := ''dd07'', Timestamp := 67, Payload := Some ''NaN''\<rparr>,
        Some (Err ''json: unsupported value''))"
    by (simp add: FullSignedBlock_CreateHash_def calculateHash_def BlockHashPrefix_def
        sprintf_02d_def decimal_digit digit_def zero_block_def)
  have short: "length ''dd07'' = 4"
    by simp
  have differs: "''dd07'' \<noteq> ''dd'' @ ''07'' @ sprintf_x [0xab, 0x01]"
    by (simp add: sprintf_x_def hex_byte_def)
  from run short differs show ?thesis
    by (intro conjI)
qed

text \<open>
  C10. When the serialisation of the block fails, \<open>FullSignedBlock.CreateHash\<close> returns
  the error and still overwrites the hash: whatever the hash was, it becomes \<open>dd\<close>
  followed by the two digits of the seconds and by nothing else.
\<close>

theorem CreateHash_overwrites_hash_on_error:
  assumes "marshal (block\<lparr>Hash := []\<rparr>) = Inl err"
    and "0 \<le> Second (sint (Timestamp block))" and "Second (sint (Timestamp block)) < 60"
  shows "FullSignedBlock_CreateHash marshal sha Second block =
           (block\<lparr>Hash :=
               ''dd''
               @ [digit (nat (Second (sint (Timestamp block))) div 10),
                  digit (nat (Second (sint (Timestamp block))) mod 10)]\<rparr>,
            Some err)"
  using assms
  by (simp add: FullSignedBlock_CreateHash_def calculateHash_Inl sprintf_02d_two_digits
      BlockHashPrefix_def Let_def)

theorem CreateHash_overwrites_hash_on_error_witness:
  "FullSignedBlock_CreateHash (\<lambda>_. Inl (Err ''json: unsupported value'')) (\<lambda>_. [0xab, 0x01])
      (\<lambda>sec. sec mod 60)
      ((zero_block :: unit FullSignedBlock)\<lparr>Hash := ''old'', Timestamp := 67\<rparr>)
     = ((zero_block :: unit FullSignedBlock)\<lparr>Hash := ''dd07'', Timestamp := 67\<rparr>,
        Some (Err ''json: unsupported value''))"
proof -
  let ?b = "(zero_block :: unit FullSignedBlock)\<lparr>Hash := ''old'', Timestamp := 67\<rparr>"
  let ?m = "\<lambda>_ :: unit FullSignedBlock. Inl (Err ''json: unsupported value'') :: go_error + u8 list"
  let ?h = "\<lambda>_ :: u8 list. [0xab, 0x01 :: u8]"
  let ?sec = "\<lambda>sec :: int. sec mod 60"
  have seconds: "?sec (sint (Timestamp ?b)) = 7"
    by simp
  have fails: "?m (?b\<lparr>Hash := []\<rparr>) = Inl (Err ''json: unsupported value'')"
    by simp
  have lower: "0 \<le> ?sec (sint (Timestamp ?b))" and upper: "?sec (sint (Timestamp ?b)) < 60"
    by simp_all
  from CreateHash_overwrites_hash_on_error
    [where marshal = ?m and sha = ?h and Second = ?sec and block = ?b
       and err = "Err ''json: unsupported value''", OF fails lower upper]
  have "FullSignedBlock_CreateHash ?m ?h ?sec ?b =
       (?b\<lparr>Hash := ''dd''
            @ [digit (nat (?sec (sint (Timestamp ?b))) div 10),
               digit (nat (?sec (sint (Timestamp ?b))) mod 10)]\<rparr>,
        Some (Err ''json: unsupported value''))" .
  then show ?thesis
    unfolding seconds by (simp add: digit_def)
qed

section \<open>Properties of the index keys\<close>

lemma string_of_bytes_of [simp]: "string_of (bytes_of s) = s"
proof -
  have "char_of (unat (of_nat (of_char c) :: u8)) = c" for c :: char
  proof -
    have "(of_char c :: nat) < 256"
      by simp
    then have "unat (of_nat (of_char c) :: u8) = of_char c"
      by (simp add: unat_of_nat)
    then show ?thesis by simp
  qed
  then show ?thesis
    by (simp add: string_of_def bytes_of_def comp_def)
qed

lemma bytes_of_string_of [simp]: "bytes_of (string_of b) = b"
proof -
  have "(of_nat (of_char (char_of (unat w))) :: u8) = w" for w :: u8
  proof -
    have "unat w < 2 ^ LENGTH(8)"
      by (rule unsigned_less)
    then have "unat w < 256"
      by simp
    then show ?thesis
      by simp
  qed
  then show ?thesis
    by (simp add: string_of_def bytes_of_def comp_def)
qed

lemma bytes_of_inject [simp]: "bytes_of s = bytes_of t \<longleftrightarrow> s = t"
  by (metis string_of_bytes_of)

lemma PutUint64_bytes:
  "PutUint64 (replicate 8 0) v =
     [ucast v, ucast (drop_bit 8 v), ucast (drop_bit 16 v), ucast (drop_bit 24 v),
      ucast (drop_bit 32 v), ucast (drop_bit 40 v), ucast (drop_bit 48 v), ucast (drop_bit 56 v)]"
  by (simp add: PutUint64_def eval_nat_numeral)

lemma length_PutUint64 [simp]: "length (PutUint64 (replicate 8 0) v) = 8"
  by (simp add: PutUint64_bytes)

lemma PutUint64_nth:
  "i < 8 \<Longrightarrow> PutUint64 (replicate 8 0) v ! i = ucast (drop_bit (8 * i) v)"
proof -
  assume "i < 8"
  then have "i \<in> {0, 1, 2, 3, 4, 5, 6, 7}"
    by auto
  then show ?thesis
    by (auto simp: PutUint64_bytes)
qed

lemma PutUint64_inject [simp]:
  "PutUint64 (replicate 8 0) v = PutUint64 (replicate 8 0) w \<longleftrightarrow> v = w"
proof
  assume eq: "PutUint64 (replicate 8 0) v = PutUint64 (replicate 8 0) w"
  show "v = w"
  proof (rule bit_word_eqI)
    fix n assume n: "n < LENGTH(64)"
    then have i: "n div 8 < 8"
      by simp
    have split: "8 * (n div 8) + n mod 8 = n"
      by simp
    have "(ucast (drop_bit (8 * (n div 8)) v) :: u8) = ucast (drop_bit (8 * (n div 8)) w)"
      using eq PutUint64_nth [OF i] by metis
    then have "bit (ucast (drop_bit (8 * (n div 8)) v) :: u8) (n mod 8)
             = bit (ucast (drop_bit (8 * (n div 8)) w) :: u8) (n mod 8)"
      by simp
    then show "bit v n = bit w n"
      using n by (simp add: bit_ucast_iff bit_drop_bit_eq split)
  qed
qed simp

lemma prefixes_distinct:
  "distinct [HashKeyPrefix, TimestampKeyPrefix, HeightKeyPrefix, FixedKeyPrefix]"
  by (simp add: HashKeyPrefix_def TimestampKeyPrefix_def HeightKeyPrefix_def FixedKeyPrefix_def)

lemma readUIntIndex_eq: "readUIntIndex txn key prefix = txn_Get txn (uint_index prefix key)"
  by (simp add: readUIntIndex_def Let_def split: sum.splits)

lemma readStringIndex_eq: "readStringIndex txn key prefix = txn_Get txn (string_index prefix key)"
  by (simp add: readStringIndex_def Let_def split: sum.splits)

lemma storeUIntIndex_eq:
  "storeUIntIndex be txn key val prefix = txn_Set be txn (uint_index prefix key) val"
  by (simp add: storeUIntIndex_def Let_def)

lemma storeStringIndex_eq:
  "storeStringIndex be txn key val prefix = txn_Set be txn (string_index prefix key) val"
  by (simp add: storeStringIndex_def Let_def)

lemma txn_Get_Set_same:
  "set_error be txn k v = None \<Longrightarrow> txn_Get (fst (txn_Set be txn k v)) k = Inr v"
  by (simp add: txn_Get_def txn_Set_def)

lemma txn_Get_Set_other:
  "k' \<noteq> k \<Longrightarrow> txn_Get (fst (txn_Set be txn k v)) k' = txn_Get txn k'"
  by (simp add: txn_Get_def txn_Set_def split: option.splits)

text \<open>
  C8. The key built on store and the key built on read are the same list of bytes: the
  prefix byte followed by the eight bytes of the numeric key, the lowest byte first (or
  by the bytes of the string key), so that a read finds what was stored under the same
  prefix and key. Keys built with different prefixes differ, whatever follows the prefix,
  so a write under one prefix leaves the reads under another prefix as they were; and the
  four prefixes of the store are pairwise different.
\<close>

theorem index_keys_consistent_and_disjoint:
  "storeUIntIndex be txn key val prefix = txn_Set be txn (uint_index prefix key) val
   \<and> readUIntIndex txn key prefix = txn_Get txn (uint_index prefix key)
   \<and> storeStringIndex be txn s val prefix = txn_Set be txn (string_index prefix s) val
   \<and> readStringIndex txn s prefix = txn_Get txn (string_index prefix s)
   \<and> length (uint_index prefix key) = 9
   \<and> uint_index prefix key ! 0 = prefix
   \<and> (\<forall>i<8. uint_index prefix key ! (i + 1) = ucast (drop_bit (8 * i) key))
   \<and> (set_error be txn (uint_index prefix key) val = None \<longrightarrow>
        readUIntIndex (fst (storeUIntIndex be txn key val prefix)) key prefix = Inr val)
   \<and> (set_error be txn (string_index prefix s) val = None \<longrightarrow>
        readStringIndex (fst (storeStringIndex be txn s val prefix)) s prefix = Inr val)
   \<and> (prefix \<noteq> prefix' \<longrightarrow>
        uint_index prefix key \<noteq> uint_index prefix' key'
        \<and> uint_index prefix key \<noteq> string_index prefix' s'
        \<and> string_index prefix s \<noteq> uint_index prefix' key'
        \<and> string_index prefix s \<noteq> string_index prefix' s'
        \<and> readUIntIndex (fst (storeUIntIndex be txn key val prefix)) key' prefix'
            = readUIntIndex txn key' prefix'
        \<and> readStringIndex (fst (storeUIntIndex be txn key val prefix)) s' prefix'
            = readStringIndex txn s' prefix'
        \<and> readUIntIndex (fst (storeStringIndex be txn s val prefix)) key' prefix'
            = readUIntIndex txn key' prefix'
        \<and> readStringIndex (fst (storeStringIndex be txn s val prefix)) s' prefix'
            = readStringIndex txn s' prefix')
   \<and> [HashKeyPrefix, TimestampKeyPrefix, HeightKeyPrefix, FixedKeyPrefix] = [0x1, 0x2, 0x3, 0xFF]
   \<and> distinct [HashKeyPrefix, TimestampKeyPrefix, HeightKeyPrefix, FixedKeyPrefix]"
proof -
  have constants: "[HashKeyPrefix, TimestampKeyPrefix, HeightKeyPrefix, FixedKeyPrefix] = [0x1, 0x2, 0x3, 0xFF]"
    by (simp add: HashKeyPrefix_def TimestampKeyPrefix_def HeightKeyPrefix_def FixedKeyPrefix_def)
  have layout: "\<forall>i<8. uint_index prefix key ! (i + 1) = ucast (drop_bit (8 * i) key)"
    by (simp add: PutUint64_nth)
  have same_uint: "set_error be txn (uint_index prefix key) val = None \<longrightarrow>
      readUIntIndex (fst (storeUIntIndex be txn key val prefix)) key prefix = Inr val"
    using txn_Get_Set_same by (simp add: readUIntIndex_eq storeUIntIndex_eq)
  have same_string: "set_error be txn (string_index prefix s) val = None \<longrightarrow>
      readStringIndex (fst (storeStringIndex be txn s val prefix)) s prefix = Inr val"
    using txn_Get_Set_same by (simp add: readStringIndex_eq storeStringIndex_eq)
  have other: "prefix \<noteq> prefix' \<longrightarrow>
        uint_index prefix key \<noteq> uint_index prefix' key'
        \<and> uint_index prefix key \<noteq> string_index prefix' s'
        \<and> string_index prefix s \<noteq> uint_index prefix' key'
        \<and> string_index prefix s \<noteq> string_index prefix' s'
        \<and> readUIntIndex (fst (storeUIntIndex be txn key val prefix)) key' prefix'
            = readUIntIndex txn key' prefix'
        \<and> readStringIndex (fst (storeUIntIndex be txn key val prefix)) s' prefix'
            = readStringIndex txn s' prefix'
        \<and> readUIntIndex (fst (storeStringIndex be txn s val prefix)) key' prefix'
            = readUIntIndex txn key' prefix'
        \<and> readStringIndex (fst (storeStringIndex be txn s val prefix)) s' prefix'
            = readStringIndex txn s' prefix'"
    by (simp add: readUIntIndex_eq readStringIndex_eq storeUIntIndex_eq storeStringIndex_eq
        txn_Get_Set_other)
  have shape: "length (uint_index prefix key) = 9 \<and> uint_index prefix key ! 0 = prefix"
    by simp
  from storeUIntIndex_eq readUIntIndex_eq storeStringIndex_eq readStringIndex_eq shape layout
    same_uint same_string other constants prefixes_distinct
  show ?thesis
    by (intro conjI) blast+
qed

theorem index_keys_consistent_and_disjoint_witness:
  "uint_index TimestampKeyPrefix 0x0102030405060708 = [2, 8, 7, 6, 5, 4, 3, 2, 1]
   \<and> TimestampKeyPrefix \<noteq> HeightKeyPrefix
   \<and> set_error \<lparr>set_error = \<lambda>_ _ _. None, commit_error = \<lambda>_ _. None\<rparr> Map.empty
         (uint_index TimestampKeyPrefix 0x0102030405060708) [9] = None
   \<and> readUIntIndex
         (fst (storeUIntIndex \<lparr>set_error = \<lambda>_ _ _. None, commit_error = \<lambda>_ _. None\<rparr> Map.empty
                 0x0102030405060708 [9] TimestampKeyPrefix))
         0x0102030405060708 TimestampKeyPrefix = Inr [9]
   \<and> uint_index TimestampKeyPrefix 0x0102030405060708 \<noteq> uint_index HeightKeyPrefix 0x0102030405060708
   \<and> readUIntIndex
         (fst (storeUIntIndex \<lparr>set_error = \<lambda>_ _ _. None, commit_error = \<lambda>_ _. None\<rparr> Map.empty
                 0x0102030405060708 [9] TimestampKeyPrefix))
         0x0102030405060708 HeightKeyPrefix = Inl ErrKeyNotFound"
proof -
  have bytes: "uint_index TimestampKeyPrefix 0x0102030405060708 = [2, 8, 7, 6, 5, 4, 3, 2, 1]"
    by (simp add: PutUint64_bytes TimestampKeyPrefix_def)
  have prefixes: "TimestampKeyPrefix \<noteq> HeightKeyPrefix"
    by (simp add: TimestampKeyPrefix_def HeightKeyPrefix_def)
  have empty: "readUIntIndex Map.empty 0x0102030405060708 HeightKeyPrefix = Inl ErrKeyNotFound"
    by (simp add: readUIntIndex_def txn_Get_def)
  note keys = index_keys_consistent_and_disjoint
    [where be = "\<lparr>set_error = \<lambda>_ _ _. None, commit_error = \<lambda>_ _. None\<rparr>" and txn = Map.empty
       and key = "0x0102030405060708" and val = "[9]" and prefix = TimestampKeyPrefix
       and prefix' = HeightKeyPrefix and key' = "0x0102030405060708"]
  have writes: "set_error \<lparr>set_error = \<lambda>_ _ _. None, commit_error = \<lambda>_ _. None\<rparr> Map.empty
         (uint_index TimestampKeyPrefix 0x0102030405060708) [9] = None"
    by simp
  from keys writes have same: "readUIntIndex
         (fst (storeUIntIndex \<lparr>set_error = \<lambda>_ _ _. None, commit_error = \<lambda>_ _. None\<rparr> Map.empty
                 0x0102030405060708 [9] TimestampKeyPrefix))
         0x0102030405060708 TimestampKeyPrefix = Inr [9]"
    by blast
  from keys prefixes have differ:
    "uint_index TimestampKeyPrefix 0x0102030405060708 \<noteq> uint_index HeightKeyPrefix 0x0102030405060708"
    by blast
  from keys prefixes have "readUIntIndex
         (fst (storeUIntIndex \<lparr>set_error = \<lambda>_ _ _. None, commit_error = \<lambda>_ _. None\<rparr> Map.empty
                 0x0102030405060708 [9] TimestampKeyPrefix))
         0x0102030405060708 HeightKeyPrefix = readUIntIndex Map.empty 0x0102030405060708 HeightKeyPrefix"
    by blast
  with empty have other: "readUIntIndex
         (fst (storeUIntIndex \<lparr>set_error = \<lambda>_ _ _. None, commit_error = \<lambda>_ _. None\<rparr> Map.empty
                 0x0102030405060708 [9] TimestampKeyPrefix))
         0x0102030405060708 HeightKeyPrefix = Inl ErrKeyNotFound"
    by simp
  from bytes prefixes writes same differ other show ?thesis
    by (intro conjI)
qed

section \<open>Properties of the ledger store\<close>

lemma StoreBlock_unfold:
  "StoreBlock marshal be db block =
     (let bytes = (case marshal block of Inl err \<Rightarrow> [] | Inr bytes \<Rightarrow> bytes);
          k1 = string_index HashKeyPrefix (Hash block);
          k2 = uint_index TimestampKeyPrefix (Timestamp block);
          k3 = uint_index HeightKeyPrefix (Height block);
          h = bytes_of (Hash block)
      in case set_error be db k1 bytes of
           Some err \<Rightarrow> (db, Some err)
         | None \<Rightarrow>
             (case set_error be (db(k1 \<mapsto> bytes)) k2 h of
                Some err \<Rightarrow> (db, Some err)
              | None \<Rightarrow>
                  (case set_error be (db(k1 \<mapsto> bytes, k2 \<mapsto> h)) k3 h of
                     Some err \<Rightarrow> (db, Some err)
                   | None \<Rightarrow>
                       (case commit_error be db (db(k1 \<mapsto> bytes, k2 \<mapsto> h, k3 \<mapsto> h)) of
                          Some err \<Rightarrow> (db, Some err)
                        | None \<Rightarrow> (db(k1 \<mapsto> bytes, k2 \<mapsto> h, k3 \<mapsto> h), None)))))"
  by (simp add: StoreBlock_def db_Update_def storeStringIndex_eq storeUIntIndex_eq txn_Set_def
      Let_def split: option.splits)

lemma StoreBlock_outcome:
  assumes "StoreBlock marshal be db block = (db', r)"
  shows "(r \<noteq> None \<and> db' = db)
       \<or> (r = None
          \<and> db' = db(string_index HashKeyPrefix (Hash block) \<mapsto>
                        (case marshal block of Inl err \<Rightarrow> [] | Inr bytes \<Rightarrow> bytes),
                      uint_index TimestampKeyPrefix (Timestamp block) \<mapsto> bytes_of (Hash block),
                      uint_index HeightKeyPrefix (Height block) \<mapsto> bytes_of (Hash block)))"
  using assms by (auto simp: StoreBlock_unfold Let_def split: option.splits)

lemma GetBlock_eq:
  "GetBlock unmarshal db hash =
     (case db (string_index HashKeyPrefix hash) of
        None \<Rightarrow> (zero_block, Some ErrKeyNotFound)
      | Some bytes \<Rightarrow> unmarshal bytes zero_block)"
  by (simp add: GetBlock_def db_View_def readStringIndex_eq txn_Get_def Let_def
      split: option.splits)

lemma FindBlockByTimestamp_eq:
  "FindBlockByTimestamp unmarshal db timestamp =
     (case db (uint_index TimestampKeyPrefix timestamp) of
        None \<Rightarrow> (zero_block, Some ErrKeyNotFound)
      | Some hashBytes \<Rightarrow>
          (case db ([HashKeyPrefix] @ hashBytes) of
             None \<Rightarrow> (zero_block, Some ErrKeyNotFound)
           | Some bytes \<Rightarrow> unmarshal bytes zero_block))"
  by (simp add: FindBlockByTimestamp_def db_View_def readStringIndex_eq readUIntIndex_eq
      txn_Get_def Let_def split: option.splits)

lemma FindBlockByHeight_eq:
  "FindBlockByHeight unmarshal db height =
     (case db (uint_index HeightKeyPrefix height) of
        None \<Rightarrow> (zero_block, Some ErrKeyNotFound)
      | Some hashBytes \<Rightarrow>
          (case db ([HashKeyPrefix] @ hashBytes) of
             None \<Rightarrow> (zero_block, Some ErrKeyNotFound)
           | Some bytes \<Rightarrow> unmarshal bytes zero_block))"
  by (simp add: FindBlockByHeight_def db_View_def readStringIndex_eq readUIntIndex_eq
      txn_Get_def Let_def split: option.splits)

lemma StoreBlock_success:
  assumes "StoreBlock marshal be db block = (db', None)"
  shows "db' = db(string_index HashKeyPrefix (Hash block) \<mapsto> stored_bytes marshal block,
                  uint_index TimestampKeyPrefix (Timestamp block) \<mapsto> bytes_of (Hash block),
                  uint_index HeightKeyPrefix (Height block) \<mapsto> bytes_of (Hash block))"
  using StoreBlock_outcome [OF assms] by simp

lemma StoreBlock_failure:
  assumes "StoreBlock marshal be db block = (db', Some err)"
  shows "db' = db"
  using StoreBlock_outcome [OF assms] by simp

lemma prefix_neq [simp]:
  "HashKeyPrefix \<noteq> TimestampKeyPrefix" "HashKeyPrefix \<noteq> HeightKeyPrefix"
  "TimestampKeyPrefix \<noteq> HeightKeyPrefix" "TimestampKeyPrefix \<noteq> HashKeyPrefix"
  "HeightKeyPrefix \<noteq> HashKeyPrefix" "HeightKeyPrefix \<noteq> TimestampKeyPrefix"
  by (simp_all add: HashKeyPrefix_def TimestampKeyPrefix_def HeightKeyPrefix_def)

text \<open>
  The three lookups of a block in a store that holds its three entries, and the same
  lookups after the three entries of a block with another hash, timestamp and height
  were written.
\<close>

lemma lookups_of_entries:
  assumes "db (string_index HashKeyPrefix (Hash b)) = Some bytes"
    and "db (uint_index TimestampKeyPrefix (Timestamp b)) = Some (bytes_of (Hash b))"
    and "db (uint_index HeightKeyPrefix (Height b)) = Some (bytes_of (Hash b))"
  shows "GetBlock unmarshal db (Hash b) = unmarshal bytes zero_block"
    and "FindBlockByTimestamp unmarshal db (Timestamp b) = unmarshal bytes zero_block"
    and "FindBlockByHeight unmarshal db (Height b) = unmarshal bytes zero_block"
  using assms by (simp_all add: GetBlock_eq FindBlockByTimestamp_eq FindBlockByHeight_eq)

lemma entries_after_StoreBlock:
  assumes "StoreBlock marshal be db b = (db', None)"
  shows "db' (string_index HashKeyPrefix (Hash b)) = Some (stored_bytes marshal b)"
    and "db' (uint_index TimestampKeyPrefix (Timestamp b)) = Some (bytes_of (Hash b))"
    and "db' (uint_index HeightKeyPrefix (Height b)) = Some (bytes_of (Hash b))"
  unfolding StoreBlock_success [OF assms] by simp_all

lemma entries_kept_by_StoreBlock:
  assumes "StoreBlock marshal be db c = (db', r)"
    and "Hash c \<noteq> Hash b" and "Timestamp c \<noteq> Timestamp b" and "Height c \<noteq> Height b"
  shows "db' (string_index HashKeyPrefix (Hash b)) = db (string_index HashKeyPrefix (Hash b))"
    and "db' (uint_index TimestampKeyPrefix (Timestamp b)) = db (uint_index TimestampKeyPrefix (Timestamp b))"
    and "db' (uint_index HeightKeyPrefix (Height b)) = db (uint_index HeightKeyPrefix (Height b))"
  using StoreBlock_outcome [OF assms(1)] assms(2-4) by auto

text \<open>
  C9. Each lookup goes through its index to the hash and through the hash to the
  serialised block, which it decodes. \<open>GetBlock\<close> returns the error \<open>ErrKeyNotFound\<close>
  when the entry of the hash is missing; \<open>FindBlockByTimestamp\<close> and
  \<open>FindBlockByHeight\<close> return it when the entry of the index is missing, and when the
  index holds a hash whose entry is missing.
\<close>

theorem lookups_fail_on_missing_entries:
  "(db (string_index HashKeyPrefix hash) = None \<longrightarrow>
      GetBlock unmarshal db hash = (zero_block, Some ErrKeyNotFound))
   \<and> (db (string_index HashKeyPrefix hash) = Some bytes \<longrightarrow>
      GetBlock unmarshal db hash = unmarshal bytes zero_block)
   \<and> (db (uint_index TimestampKeyPrefix n) = None \<longrightarrow>
      FindBlockByTimestamp unmarshal db n = (zero_block, Some ErrKeyNotFound))
   \<and> (db (uint_index TimestampKeyPrefix n) = Some hashBytes
      \<and> db (string_index HashKeyPrefix (string_of hashBytes)) = None \<longrightarrow>
      FindBlockByTimestamp unmarshal db n = (zero_block, Some ErrKeyNotFound))
   \<and> (db (uint_index TimestampKeyPrefix n) = Some hashBytes
      \<and> db (string_index HashKeyPrefix (string_of hashBytes)) = Some bytes \<longrightarrow>
      FindBlockByTimestamp unmarshal db n = unmarshal bytes zero_block)
   \<and> (db (uint_index HeightKeyPrefix n) = None \<longrightarrow>
      FindBlockByHeight unmarshal db n = (zero_block, Some ErrKeyNotFound))
   \<and> (db (uint_index HeightKeyPrefix n) = Some hashBytes
      \<and> db (string_index HashKeyPrefix (string_of hashBytes)) = None \<longrightarrow>
      FindBlockByHeight unmarshal db n = (zero_block, Some ErrKeyNotFound))
   \<and> (db (uint_index HeightKeyPrefix n) = Some hashBytes
      \<and> db (string_index HashKeyPrefix (string_of hashBytes)) = Some bytes \<longrightarrow>
      FindBlockByHeight unmarshal db n = unmarshal bytes zero_block)"
  by (simp add: GetBlock_eq FindBlockByTimestamp_eq FindBlockByHeight_eq)

theorem lookups_fail_on_missing_entries_witness:
  "GetBlock (\<lambda>bytes block. (block, None))
      [uint_index TimestampKeyPrefix 7 \<mapsto> bytes_of ''dd07''] ''dd07''
     = (zero_block :: unit FullSignedBlock, Some ErrKeyNotFound)
   \<and> FindBlockByTimestamp (\<lambda>bytes block. (block, None))
      [uint_index TimestampKeyPrefix 7 \<mapsto> bytes_of ''dd07''] 7
     = (zero_block :: unit FullSignedBlock, Some ErrKeyNotFound)
   \<and> FindBlockByHeight (\<lambda>bytes block. (block, None))
      [uint_index TimestampKeyPrefix 7 \<mapsto> bytes_of ''dd07''] 7
     = (zero_block :: unit FullSignedBlock, Some ErrKeyNotFound)"
proof -
  let ?db = "[uint_index TimestampKeyPrefix 7 \<mapsto> bytes_of ''dd07'']"
  have primary: "?db (string_index HashKeyPrefix ''dd07'') = None"
    by simp
  have index: "?db (uint_index TimestampKeyPrefix 7) = Some (bytes_of ''dd07'')"
    by simp
  have primary': "?db (string_index HashKeyPrefix (string_of (bytes_of ''dd07''))) = None"
    by simp
  have height: "?db (uint_index HeightKeyPrefix 7) = None"
    by simp
  note lookups = lookups_fail_on_missing_entries
    [where db = ?db and hash = "''dd07''" and n = 7 and hashBytes = "bytes_of ''dd07''"
       and unmarshal = "\<lambda>bytes block. (block :: unit FullSignedBlock, None)"]
  from lookups primary have
    "GetBlock (\<lambda>bytes block. (block, None)) ?db ''dd07''
       = (zero_block :: unit FullSignedBlock, Some ErrKeyNotFound)"
    by blast
  moreover from lookups index primary' have
    "FindBlockByTimestamp (\<lambda>bytes block. (block, None)) ?db 7
       = (zero_block :: unit FullSignedBlock, Some ErrKeyNotFound)"
    by blast
  moreover from lookups height have
    "FindBlockByHeight (\<lambda>bytes block. (block, None)) ?db 7
       = (zero_block :: unit FullSignedBlock, Some ErrKeyNotFound)"
    by blast
  ultimately show ?thesis
    by (intro conjI)
qed


text \<open>
  C3. The claim is that \<open>StoreBlock\<close> writes the serialised block under the hash, and
  the hash under the timestamp and under the height, in one transaction, all or nothing.
  On the code the transaction is all or nothing for every block: the error of the first,
  second or third write, or of the commit, is returned and the store stays as it was,
  so that lookups of keys that were absent find nothing; and when nothing is refused
  \<open>StoreBlock\<close> returns no error and the store holds the three entries. The value under
  the hash is the serialised block only when \<open>json.Marshal\<close> succeeds. When it fails,
  \<open>StoreBlock\<close> drops its error, and the value \<open>val\<close> written under the hash is
  empty, with no error returned.
\<close>

theorem StoreBlock_all_or_nothing:
  assumes "marshal block = Inr val \<or> ((\<exists>e. marshal block = Inl e) \<and> val = [])"
  shows
  "(set_error be db (string_index HashKeyPrefix (Hash block)) val = Some err \<longrightarrow>
      StoreBlock marshal be db block = (db, Some err))
   \<and> (set_error be db (string_index HashKeyPrefix (Hash block)) val = None
      \<and> set_error be
            (db(string_index HashKeyPrefix (Hash block) \<mapsto> val))
            (uint_index TimestampKeyPrefix (Timestamp block)) (bytes_of (Hash block)) = Some err \<longrightarrow>
      StoreBlock marshal be db block = (db, Some err))
   \<and> (set_error be db (string_index HashKeyPrefix (Hash block)) val = None
      \<and> set_error be
            (db(string_index HashKeyPrefix (Hash block) \<mapsto> val))
            (uint_index TimestampKeyPrefix (Timestamp block)) (bytes_of (Hash block)) = None
      \<and> set_error be
            (db(string_index HashKeyPrefix (Hash block) \<mapsto> val,
                uint_index TimestampKeyPrefix (Timestamp block) \<mapsto> bytes_of (Hash block)))
            (uint_index HeightKeyPrefix (Height block)) (bytes_of (Hash block)) = Some err \<longrightarrow>
      StoreBlock marshal be db block = (db, Some err))
   \<and> (set_error be db (string_index HashKeyPrefix (Hash block)) val = None
      \<and> set_error be
            (db(string_index HashKeyPrefix (Hash block) \<mapsto> val))
            (uint_index TimestampKeyPrefix (Timestamp block)) (bytes_of (Hash block)) = None
      \<and> set_error be
            (db(string_index HashKeyPrefix (Hash block) \<mapsto> val,
                uint_index TimestampKeyPrefix (Timestamp block) \<mapsto> bytes_of (Hash block)))
            (uint_index HeightKeyPrefix (Height block)) (bytes_of (Hash block)) = None
      \<and> commit_error be db
            (db(string_index HashKeyPrefix (Hash block) \<mapsto> val,
                uint_index TimestampKeyPrefix (Timestamp block) \<mapsto> bytes_of (Hash block),
                uint_index HeightKeyPrefix (Height block) \<mapsto> bytes_of (Hash block))) = Some err \<longrightarrow>
      StoreBlock marshal be db block = (db, Some err))
   \<and> (set_error be db (string_index HashKeyPrefix (Hash block)) val = None
      \<and> set_error be
            (db(string_index HashKeyPrefix (Hash block) \<mapsto> val))
            (uint_index TimestampKeyPrefix (Timestamp block)) (bytes_of (Hash block)) = None
      \<and> set_error be
            (db(string_index HashKeyPrefix (Hash block) \<mapsto> val,
                uint_index TimestampKeyPrefix (Timestamp block) \<mapsto> bytes_of (Hash block)))
            (uint_index HeightKeyPrefix (Height block)) (bytes_of (Hash block)) = None
      \<and> commit_error be db
            (db(string_index HashKeyPrefix (Hash block) \<mapsto> val,
                uint_index TimestampKeyPrefix (Timestamp block) \<mapsto> bytes_of (Hash block),
                uint_index HeightKeyPrefix (Height block) \<mapsto> bytes_of (Hash block))) = None \<longrightarrow>
      StoreBlock marshal be db block =
        (db(string_index HashKeyPrefix (Hash block) \<mapsto> val,
            uint_index TimestampKeyPrefix (Timestamp block) \<mapsto> bytes_of (Hash block),
            uint_index HeightKeyPrefix (Height block) \<mapsto> bytes_of (Hash block)),
         None))
   \<and> (StoreBlock marshal be db block = (db', Some err) \<longrightarrow> db' = db)
   \<and> (StoreBlock marshal be db block = (db', None) \<longrightarrow>
      db' = db(string_index HashKeyPrefix (Hash block) \<mapsto> val,
               uint_index TimestampKeyPrefix (Timestamp block) \<mapsto> bytes_of (Hash block),
               uint_index HeightKeyPrefix (Height block) \<mapsto> bytes_of (Hash block)))
   \<and> (StoreBlock marshal be db block = (db', Some err)
      \<and> db (string_index HashKeyPrefix (Hash block)) = None
      \<and> db (uint_index TimestampKeyPrefix (Timestamp block)) = None
      \<and> db (uint_index HeightKeyPrefix (Height block)) = None \<longrightarrow>
      GetBlock unmarshal db' (Hash block) = (zero_block, Some ErrKeyNotFound)
      \<and> FindBlockByTimestamp unmarshal db' (Timestamp block) = (zero_block, Some ErrKeyNotFound)
      \<and> FindBlockByHeight unmarshal db' (Height block) = (zero_block, Some ErrKeyNotFound))"
proof -
  from assms have val: "stored_bytes marshal block = val"
    by auto
  have first: "set_error be db (string_index HashKeyPrefix (Hash block)) val = Some err \<longrightarrow>
      StoreBlock marshal be db block = (db, Some err)"
    by (simp add: StoreBlock_unfold Let_def val)
  have second: "set_error be db (string_index HashKeyPrefix (Hash block)) val = None
      \<and> set_error be
            (db(string_index HashKeyPrefix (Hash block) \<mapsto> val))
            (uint_index TimestampKeyPrefix (Timestamp block)) (bytes_of (Hash block)) = Some err \<longrightarrow>
      StoreBlock marshal be db block = (db, Some err)"
    by (simp add: StoreBlock_unfold Let_def val)
  have third: "set_error be db (string_index HashKeyPrefix (Hash block)) val = None
      \<and> set_error be
            (db(string_index HashKeyPrefix (Hash block) \<mapsto> val))
            (uint_index TimestampKeyPrefix (Timestamp block)) (bytes_of (Hash block)) = None
      \<and> set_error be
            (db(string_index HashKeyPrefix (Hash block) \<mapsto> val,
                uint_index TimestampKeyPrefix (Timestamp block) \<mapsto> bytes_of (Hash block)))
            (uint_index HeightKeyPrefix (Height block)) (bytes_of (Hash block)) = Some err \<longrightarrow>
      StoreBlock marshal be db block = (db, Some err)"
    by (simp add: StoreBlock_unfold Let_def val)
  have commit: "set_error be db (string_index HashKeyPrefix (Hash block)) val = None
      \<and> set_error be
            (db(string_index HashKeyPrefix (Hash block) \<mapsto> val))
            (uint_index TimestampKeyPrefix (Timestamp block)) (bytes_of (Hash block)) = None
      \<and> set_error be
            (db(string_index HashKeyPrefix (Hash block) \<mapsto> val,
                uint_index TimestampKeyPrefix (Timestamp block) \<mapsto> bytes_of (Hash block)))
            (uint_index HeightKeyPrefix (Height block)) (bytes_of (Hash block)) = None
      \<and> commit_error be db
            (db(string_index HashKeyPrefix (Hash block) \<mapsto> val,
                uint_index TimestampKeyPrefix (Timestamp block) \<mapsto> bytes_of (Hash block),
                uint_index HeightKeyPrefix (Height block) \<mapsto> bytes_of (Hash block))) = Some err \<longrightarrow>
      StoreBlock marshal be db block = (db, Some err)"
    by (simp add: StoreBlock_unfold Let_def val)
  have written: "set_error be db (string_index HashKeyPrefix (Hash block)) val = None
      \<and> set_error be
            (db(string_index HashKeyPrefix (Hash block) \<mapsto> val))
            (uint_index TimestampKeyPrefix (Timestamp block)) (bytes_of (Hash block)) = None
      \<and> set_error be
            (db(string_index HashKeyPrefix (Hash block) \<mapsto> val,
                uint_index TimestampKeyPrefix (Timestamp block) \<mapsto> bytes_of (Hash block)))
            (uint_index HeightKeyPrefix (Height block)) (bytes_of (Hash block)) = None
      \<and> commit_error be db
            (db(string_index HashKeyPrefix (Hash block) \<mapsto> val,
                uint_index TimestampKeyPrefix (Timestamp block) \<mapsto> bytes_of (Hash block),
                uint_index HeightKeyPrefix (Height block) \<mapsto> bytes_of (Hash block))) = None \<longrightarrow>
      StoreBlock marshal be db block =
        (db(string_index HashKeyPrefix (Hash block) \<mapsto> val,
            uint_index TimestampKeyPrefix (Timestamp block) \<mapsto> bytes_of (Hash block),
            uint_index HeightKeyPrefix (Height block) \<mapsto> bytes_of (Hash block)),
         None)"
    by (simp add: StoreBlock_unfold Let_def val)
  have unchanged: "StoreBlock marshal be db block = (db', Some err) \<longrightarrow> db' = db"
    using StoreBlock_failure by blast
  have everything: "StoreBlock marshal be db block = (db', None) \<longrightarrow>
      db' = db(string_index HashKeyPrefix (Hash block) \<mapsto> val,
               uint_index TimestampKeyPrefix (Timestamp block) \<mapsto> bytes_of (Hash block),
               uint_index HeightKeyPrefix (Height block) \<mapsto> bytes_of (Hash block))"
    using StoreBlock_success [of marshal be db block db'] val by simp
  have lookups: "StoreBlock marshal be db block = (db', Some err)
      \<and> db (string_index HashKeyPrefix (Hash block)) = None
      \<and> db (uint_index TimestampKeyPrefix (Timestamp block)) = None
      \<and> db (uint_index HeightKeyPrefix (Height block)) = None \<longrightarrow>
      GetBlock unmarshal db' (Hash block) = (zero_block, Some ErrKeyNotFound)
      \<and> FindBlockByTimestamp unmarshal db' (Timestamp block) = (zero_block, Some ErrKeyNotFound)
      \<and> FindBlockByHeight unmarshal db' (Height block) = (zero_block, Some ErrKeyNotFound)"
  proof
    assume a: "StoreBlock marshal be db block = (db', Some err)
      \<and> db (string_index HashKeyPrefix (Hash block)) = None
      \<and> db (uint_index TimestampKeyPrefix (Timestamp block)) = None
      \<and> db (uint_index HeightKeyPrefix (Height block)) = None"
    then have "db' = db"
      using StoreBlock_failure by blast
    with a show "GetBlock unmarshal db' (Hash block) = (zero_block, Some ErrKeyNotFound)
      \<and> FindBlockByTimestamp unmarshal db' (Timestamp block) = (zero_block, Some ErrKeyNotFound)
      \<and> FindBlockByHeight unmarshal db' (Height block) = (zero_block, Some ErrKeyNotFound)"
      by (simp add: GetBlock_eq FindBlockByTimestamp_eq FindBlockByHeight_eq)
  qed
  from first second third commit written unchanged everything lookups show ?thesis
    by (intro conjI)
qed

theorem StoreBlock_all_or_nothing_witness:
  "StoreBlock (\<lambda>_. Inl (Err ''json: unsupported value''))
      \<lparr>set_error = \<lambda>_ _ _. None, commit_error = \<lambda>_ _. None\<rparr>
      Map.empty
      ((zero_block :: string FullSignedBlock)
          \<lparr>Hash := ''dd07'', Height := 1, Timestamp := 67, Payload := Some ''NaN''\<rparr>)
     = ([string_index HashKeyPrefix ''dd07'' \<mapsto> [],
         uint_index TimestampKeyPrefix 67 \<mapsto> bytes_of ''dd07'',
         uint_index HeightKeyPrefix 1 \<mapsto> bytes_of ''dd07''],
        None)
   \<and> StoreBlock (\<lambda>_. Inr [1])
      \<lparr>set_error = \<lambda>txn k v. if hd k = HeightKeyPrefix then Some (Err ''write refused'') else None,
       commit_error = \<lambda>_ _. None\<rparr>
      Map.empty
      ((zero_block :: string FullSignedBlock)\<lparr>Hash := ''dd07'', Height := 1, Timestamp := 67\<rparr>)
     = (Map.empty, Some (Err ''write refused''))
   \<and> GetBlock (\<lambda>bytes block. (block, None)) Map.empty ''dd07''
     = (zero_block :: string FullSignedBlock, Some ErrKeyNotFound)
   \<and> FindBlockByTimestamp (\<lambda>bytes block. (block, None)) Map.empty 67
     = (zero_block :: string FullSignedBlock, Some ErrKeyNotFound)
   \<and> FindBlockByHeight (\<lambda>bytes block. (block, None)) Map.empty 1
     = (zero_block :: string FullSignedBlock, Some ErrKeyNotFound)"
proof -
  let ?ok = "\<lparr>set_error = \<lambda>_ _ _. None, commit_error = \<lambda>_ _. None\<rparr>"
  let ?no = "\<lparr>set_error = \<lambda>txn k v. if hd k = HeightKeyPrefix then Some (Err ''write refused'') else None,
              commit_error = \<lambda>_ _. None\<rparr>"
  let ?a = "(zero_block :: string FullSignedBlock)
              \<lparr>Hash := ''dd07'', Height := 1, Timestamp := 67, Payload := Some ''NaN''\<rparr>"
  let ?b = "(zero_block :: string FullSignedBlock)\<lparr>Hash := ''dd07'', Height := 1, Timestamp := 67\<rparr>"
  let ?f = "\<lambda>_ :: string FullSignedBlock. Inl (Err ''json: unsupported value'') :: go_error + u8 list"
  let ?m = "\<lambda>_ :: string FullSignedBlock. Inr [1 :: u8] :: go_error + u8 list"
  let ?u = "\<lambda>(bytes :: u8 list) (block :: string FullSignedBlock). (block, None :: go_error option)"
  have fields: "Hash ?a = ''dd07''" "Timestamp ?a = 67" "Height ?a = 1"
    "Hash ?b = ''dd07''" "Timestamp ?b = 67" "Height ?b = 1"
    by (simp_all add: zero_block_def)
  have fails: "?f ?a = Inr [] \<or> ((\<exists>e. ?f ?a = Inl e) \<and> ([] :: u8 list) = [])"
    by simp
  note empty_value = StoreBlock_all_or_nothing
    [where marshal = ?f and block = ?a and val = "[]" and be = ?ok and db = Map.empty
       and unmarshal = ?u, OF fails]
  have a1: "set_error ?ok Map.empty (string_index HashKeyPrefix (Hash ?a)) [] = None"
    by simp
  have a2: "set_error ?ok
            (Map.empty(string_index HashKeyPrefix (Hash ?a) \<mapsto> []))
            (uint_index TimestampKeyPrefix (Timestamp ?a)) (bytes_of (Hash ?a)) = None"
    by simp
  have a3: "set_error ?ok
            (Map.empty(string_index HashKeyPrefix (Hash ?a) \<mapsto> [],
                uint_index TimestampKeyPrefix (Timestamp ?a) \<mapsto> bytes_of (Hash ?a)))
            (uint_index HeightKeyPrefix (Height ?a)) (bytes_of (Hash ?a)) = None"
    by simp
  have a4: "commit_error ?ok Map.empty
            (Map.empty(string_index HashKeyPrefix (Hash ?a) \<mapsto> [],
                uint_index TimestampKeyPrefix (Timestamp ?a) \<mapsto> bytes_of (Hash ?a),
                uint_index HeightKeyPrefix (Height ?a) \<mapsto> bytes_of (Hash ?a))) = None"
    by simp
  from empty_value a1 a2 a3 a4 have
    "StoreBlock ?f ?ok Map.empty ?a =
        (Map.empty(string_index HashKeyPrefix (Hash ?a) \<mapsto> [],
            uint_index TimestampKeyPrefix (Timestamp ?a) \<mapsto> bytes_of (Hash ?a),
            uint_index HeightKeyPrefix (Height ?a) \<mapsto> bytes_of (Hash ?a)),
         None)"
    by blast
  then have stored: "StoreBlock ?f ?ok Map.empty ?a =
        ([string_index HashKeyPrefix ''dd07'' \<mapsto> [],
          uint_index TimestampKeyPrefix 67 \<mapsto> bytes_of ''dd07'',
          uint_index HeightKeyPrefix 1 \<mapsto> bytes_of ''dd07''],
         None)"
    unfolding fields .
  have serialised: "?m ?b = Inr [1] \<or> ((\<exists>e. ?m ?b = Inl e) \<and> [1 :: u8] = [])"
    by simp
  note refused = StoreBlock_all_or_nothing
    [where marshal = ?m and block = ?b and val = "[1]" and be = ?no and db = Map.empty
       and unmarshal = ?u and err = "Err ''write refused''" and db' = Map.empty, OF serialised]
  have w1: "set_error ?no Map.empty (string_index HashKeyPrefix (Hash ?b)) [1] = None"
    by simp
  have w2: "set_error ?no
            (Map.empty(string_index HashKeyPrefix (Hash ?b) \<mapsto> [1]))
            (uint_index TimestampKeyPrefix (Timestamp ?b)) (bytes_of (Hash ?b)) = None"
    by simp
  have w3: "set_error ?no
            (Map.empty(string_index HashKeyPrefix (Hash ?b) \<mapsto> [1],
                uint_index TimestampKeyPrefix (Timestamp ?b) \<mapsto> bytes_of (Hash ?b)))
            (uint_index HeightKeyPrefix (Height ?b)) (bytes_of (Hash ?b)) = Some (Err ''write refused'')"
    by simp
  from refused w1 w2 w3 have run: "StoreBlock ?m ?no Map.empty ?b = (Map.empty, Some (Err ''write refused''))"
    by blast
  have absent: "Map.empty (string_index HashKeyPrefix (Hash ?b)) = (None :: u8 list option)"
    "Map.empty (uint_index TimestampKeyPrefix (Timestamp ?b)) = (None :: u8 list option)"
    "Map.empty (uint_index HeightKeyPrefix (Height ?b)) = (None :: u8 list option)"
    by simp_all
  from refused run absent have
    "GetBlock ?u Map.empty (Hash ?b) = (zero_block, Some ErrKeyNotFound)
     \<and> FindBlockByTimestamp ?u Map.empty (Timestamp ?b) = (zero_block, Some ErrKeyNotFound)
     \<and> FindBlockByHeight ?u Map.empty (Height ?b) = (zero_block, Some ErrKeyNotFound)"
    by blast
  then have found:
    "GetBlock ?u Map.empty ''dd07'' = (zero_block, Some ErrKeyNotFound)"
    "FindBlockByTimestamp ?u Map.empty 67 = (zero_block, Some ErrKeyNotFound)"
    "FindBlockByHeight ?u Map.empty 1 = (zero_block, Some ErrKeyNotFound)"
    unfolding fields by blast+
  from stored run found show ?thesis
    by (intro conjI)
qed


text \<open>
  The entries of a block survive any sequence of later calls of \<open>StoreBlock\<close>, failed or
  not, on blocks whose hash, timestamp and height all differ from its own. Each call
  works on the store that the call before it left.
\<close>

lemma entries_kept_by_later_stores:
  fixes b :: "'p FullSignedBlock" and cs :: "'p FullSignedBlock list"
  assumes "\<forall>c\<in>set cs. Hash c \<noteq> Hash b \<and> Timestamp c \<noteq> Timestamp b \<and> Height c \<noteq> Height b"
  shows "foldl (\<lambda>db c. fst (StoreBlock marshal be db c)) db cs (string_index HashKeyPrefix (Hash b))
           = db (string_index HashKeyPrefix (Hash b))
       \<and> foldl (\<lambda>db c. fst (StoreBlock marshal be db c)) db cs (uint_index TimestampKeyPrefix (Timestamp b))
           = db (uint_index TimestampKeyPrefix (Timestamp b))
       \<and> foldl (\<lambda>db c. fst (StoreBlock marshal be db c)) db cs (uint_index HeightKeyPrefix (Height b))
           = db (uint_index HeightKeyPrefix (Height b))"
  using assms
proof (induction cs arbitrary: db)
  case Nil
  show ?case by simp
next
  case (Cons c cs)
  from Cons.prems have c: "Hash c \<noteq> Hash b" "Timestamp c \<noteq> Timestamp b" "Height c \<noteq> Height b"
    and cs: "\<forall>c\<in>set cs. Hash c \<noteq> Hash b \<and> Timestamp c \<noteq> Timestamp b \<and> Height c \<noteq> Height b"
    by simp_all
  have run: "StoreBlock marshal be db c = (fst (StoreBlock marshal be db c), snd (StoreBlock marshal be db c))"
    by simp
  note step = entries_kept_by_StoreBlock [OF run c]
  note rest = Cons.IH [OF cs, of "fst (StoreBlock marshal be db c)"]
  show ?case
    using rest step by simp
qed

text \<open>
  C1. The claim is that after a successful \<open>StoreBlock\<close> of a sealed block \<open>b\<close>, whose
  hash, timestamp and height no other stored block shares, the lookups by the hash, the
  timestamp and the height each return a block equal to \<open>b\<close>. A lookup returns what
  \<open>json.Unmarshal\<close> makes of the stored bytes, so the claim holds for the blocks that
  the serialisation gives back as they were: when \<open>json.Marshal\<close> of \<open>b\<close> yields
  bytes that decode to \<open>b\<close>, then after a successful \<open>StoreBlock\<close> of \<open>b\<close>, and after
  any sequence \<open>cs\<close> of later calls of \<open>StoreBlock\<close> on blocks whose hash, timestamp
  and height all differ from those of \<open>b\<close>, each of the three lookups returns \<open>b\<close> and
  no error.
\<close>

theorem StoreBlock_round_trip:
  fixes b :: "'p FullSignedBlock" and cs :: "'p FullSignedBlock list"
  assumes "marshal b = Inr bytes"
    and "unmarshal bytes zero_block = (b, None)"
    and "StoreBlock marshal be db b = (db', None)"
    and "\<forall>c\<in>set cs. Hash c \<noteq> Hash b \<and> Timestamp c \<noteq> Timestamp b \<and> Height c \<noteq> Height b"
  shows "GetBlock unmarshal (foldl (\<lambda>db c. fst (StoreBlock marshal be db c)) db' cs) (Hash b)
           = (b, None)
       \<and> FindBlockByTimestamp unmarshal (foldl (\<lambda>db c. fst (StoreBlock marshal be db c)) db' cs)
           (Timestamp b) = (b, None)
       \<and> FindBlockByHeight unmarshal (foldl (\<lambda>db c. fst (StoreBlock marshal be db c)) db' cs)
           (Height b) = (b, None)"
proof -
  let ?later = "foldl (\<lambda>db c. fst (StoreBlock marshal be db c)) db' cs"
  note entries = entries_after_StoreBlock [OF assms(3)]
  from assms(1) have bytes: "stored_bytes marshal b = bytes"
    by simp
  note kept = entries_kept_by_later_stores [OF assms(4), of marshal be db']
  have "?later (string_index HashKeyPrefix (Hash b)) = Some bytes"
    "?later (uint_index TimestampKeyPrefix (Timestamp b)) = Some (bytes_of (Hash b))"
    "?later (uint_index HeightKeyPrefix (Height b)) = Some (bytes_of (Hash b))"
    using kept entries bytes by simp_all
  from lookups_of_entries [OF this, of unmarshal] assms(2) show ?thesis
    by simp
qed

theorem StoreBlock_round_trip_witness:
  "(\<lambda>blk :: unit FullSignedBlock. Inr (bytes_of (Hash blk)) :: go_error + u8 list)
       (zero_block\<lparr>Hash := ''dd07''\<rparr>) = Inr (bytes_of ''dd07'')
   \<and> snd (StoreBlock (\<lambda>blk. Inr (bytes_of (Hash blk)))
              \<lparr>set_error = \<lambda>_ _ _. None, commit_error = \<lambda>_ _. None\<rparr> Map.empty
              ((zero_block :: unit FullSignedBlock)\<lparr>Hash := ''dd07''\<rparr>)) = None
   \<and> GetBlock (\<lambda>bytes blk. (blk\<lparr>Hash := string_of bytes\<rparr>, None))
        (foldl (\<lambda>db c. fst (StoreBlock (\<lambda>blk. Inr (bytes_of (Hash blk)))
                  \<lparr>set_error = \<lambda>_ _ _. None, commit_error = \<lambda>_ _. None\<rparr> db c))
          (fst (StoreBlock (\<lambda>blk. Inr (bytes_of (Hash blk)))
              \<lparr>set_error = \<lambda>_ _ _. None, commit_error = \<lambda>_ _. None\<rparr> Map.empty
              ((zero_block :: unit FullSignedBlock)\<lparr>Hash := ''dd07''\<rparr>)))
          [(zero_block :: unit FullSignedBlock)\<lparr>Hash := ''dd08'', Height := 1, Timestamp := 1\<rparr>,
           (zero_block :: unit FullSignedBlock)\<lparr>Hash := ''dd09'', Height := 2, Timestamp := 2\<rparr>])
        ''dd07'' = ((zero_block :: unit FullSignedBlock)\<lparr>Hash := ''dd07''\<rparr>, None)
   \<and> FindBlockByTimestamp (\<lambda>bytes blk. (blk\<lparr>Hash := string_of bytes\<rparr>, None))
        (foldl (\<lambda>db c. fst (StoreBlock (\<lambda>blk. Inr (bytes_of (Hash blk)))
                  \<lparr>set_error = \<lambda>_ _ _. None, commit_error = \<lambda>_ _. None\<rparr> db c))
          (fst (StoreBlock (\<lambda>blk. Inr (bytes_of (Hash blk)))
              \<lparr>set_error = \<lambda>_ _ _. None, commit_error = \<lambda>_ _. None\<rparr> Map.empty
              ((zero_block :: unit FullSignedBlock)\<lparr>Hash := ''dd07''\<rparr>)))
          [(zero_block :: unit FullSignedBlock)\<lparr>Hash := ''dd08'', Height := 1, Timestamp := 1\<rparr>,
           (zero_block :: unit FullSignedBlock)\<lparr>Hash := ''dd09'', Height := 2, Timestamp := 2\<rparr>])
        0 = ((zero_block :: unit FullSignedBlock)\<lparr>Hash := ''dd07''\<rparr>, None)
   \<and> FindBlockByHeight (\<lambda>bytes blk. (blk\<lparr>Hash := string_of bytes\<rparr>, None))
        (foldl (\<lambda>db c. fst (StoreBlock (\<lambda>blk. Inr (bytes_of (Hash blk)))
                  \<lparr>set_error = \<lambda>_ _ _. None, commit_error = \<lambda>_ _. None\<rparr> db c))
          (fst (StoreBlock (\<lambda>blk. Inr (bytes_of (Hash blk)))
              \<lparr>set_error = \<lambda>_ _ _. None, commit_error = \<lambda>_ _. None\<rparr> Map.empty
              ((zero_block :: unit FullSignedBlock)\<lparr>Hash := ''dd07''\<rparr>)))
          [(zero_block :: unit FullSignedBlock)\<lparr>Hash := ''dd08'', Height := 1, Timestamp := 1\<rparr>,
           (zero_block :: unit FullSignedBlock)\<lparr>Hash := ''dd09'', Height := 2, Timestamp := 2\<rparr>])
        0 = ((zero_block :: unit FullSignedBlock)\<lparr>Hash := ''dd07''\<rparr>, None)"
proof -
  let ?be = "\<lparr>set_error = \<lambda>_ _ _. None, commit_error = \<lambda>_ _. None\<rparr>"
  let ?b = "(zero_block :: unit FullSignedBlock)\<lparr>Hash := ''dd07''\<rparr>"
  let ?cs = "[(zero_block :: unit FullSignedBlock)\<lparr>Hash := ''dd08'', Height := 1, Timestamp := 1\<rparr>,
              (zero_block :: unit FullSignedBlock)\<lparr>Hash := ''dd09'', Height := 2, Timestamp := 2\<rparr>]"
  let ?m = "\<lambda>blk :: unit FullSignedBlock. Inr (bytes_of (Hash blk)) :: go_error + u8 list"
  let ?u = "\<lambda>(bytes :: u8 list) (blk :: unit FullSignedBlock).
              (blk\<lparr>Hash := string_of bytes\<rparr>, None :: go_error option)"
  let ?db = "fst (StoreBlock ?m ?be Map.empty ?b)"
  have enc: "?m ?b = Inr (bytes_of ''dd07'')"
    by simp
  have dec: "?u (bytes_of ''dd07'') zero_block = (?b, None)"
    by simp
  have ok: "snd (StoreBlock ?m ?be Map.empty ?b) = None"
    by (simp add: StoreBlock_unfold Let_def)
  then have run: "StoreBlock ?m ?be Map.empty ?b = (?db, None)"
    by (metis prod.collapse)
  have others: "\<forall>c\<in>set ?cs. Hash c \<noteq> Hash ?b \<and> Timestamp c \<noteq> Timestamp ?b \<and> Height c \<noteq> Height ?b"
    by (simp add: zero_block_def)
  have fields: "Hash ?b = ''dd07''" "Timestamp ?b = 0" "Height ?b = 0"
    by (simp_all add: zero_block_def)
  from StoreBlock_round_trip
    [where marshal = ?m and unmarshal = ?u and b = ?b and bytes = "bytes_of ''dd07''"
       and be = ?be and db = Map.empty and db' = ?db and cs = ?cs,
     OF enc dec run others]
  have
    "GetBlock ?u (foldl (\<lambda>db c. fst (StoreBlock ?m ?be db c)) ?db ?cs) (Hash ?b) = (?b, None)
     \<and> FindBlockByTimestamp ?u (foldl (\<lambda>db c. fst (StoreBlock ?m ?be db c)) ?db ?cs) (Timestamp ?b)
         = (?b, None)
     \<and> FindBlockByHeight ?u (foldl (\<lambda>db c. fst (StoreBlock ?m ?be db c)) ?db ?cs) (Height ?b)
         = (?b, None)" .
  then have found:
    "GetBlock ?u (foldl (\<lambda>db c. fst (StoreBlock ?m ?be db c)) ?db ?cs) ''dd07'' = (?b, None)"
    "FindBlockByTimestamp ?u (foldl (\<lambda>db c. fst (StoreBlock ?m ?be db c)) ?db ?cs) 0 = (?b, None)"
    "FindBlockByHeight ?u (foldl (\<lambda>db c. fst (StoreBlock ?m ?be db c)) ?db ?cs) 0 = (?b, None)"
    unfolding fields by blast+
  from enc ok found show ?thesis
    by (intro conjI)
qed

text \<open>
  The claim does not hold for every sealed block, because the serialisation does not
  give every block back as it was. \<open>json.Marshal\<close> writes a byte of a string that is
  not valid UTF-8 as the escape of the replacement character U+FFFD, and
  \<open>json.Unmarshal\<close> reads the escape as the three bytes \<open>EF BF BD\<close>. In the example
  the memo of the block is the single byte \<open>FF\<close>; the two functions standing for
  \<open>json.Marshal\<close> and \<open>json.Unmarshal\<close> give the text and the block that Go gives
  for this block. \<open>CreateHash\<close> seals the block without error, \<open>StoreBlock\<close> succeeds
  on an empty store, and each lookup returns, without error, a block whose memo is
  \<open>EF BF BD\<close>, which is not the block that was stored.
\<close>

theorem StoreBlock_round_trip_counterexample:
  "FullSignedBlock_CreateHash
      (\<lambda>blk. Inr (bytes_of (''{\"hash\":\"'' @ Hash blk @ ''\",\"height\":1,\"timestamp\":67,\"data\":null,\"previousHash\":\"\",\"address\":\"\",\"previousAddress\":\"\",\"memo\":\"'' @ [CHR 0x5C] @ ''ufffd\",\"evidence\":null}'')))
      (\<lambda>_. [0xab, 0x01]) (\<lambda>sec. sec mod 60)
      ((zero_block :: unit FullSignedBlock)\<lparr>Height := 1, Timestamp := 67, Memo := [CHR 0xFF]\<rparr>)
     = ((zero_block :: unit FullSignedBlock)
          \<lparr>Hash := ''dd07ab01'', Height := 1, Timestamp := 67, Memo := [CHR 0xFF]\<rparr>,
        None)
   \<and> snd (StoreBlock
        (\<lambda>blk. Inr (bytes_of (''{\"hash\":\"'' @ Hash blk @ ''\",\"height\":1,\"timestamp\":67,\"data\":null,\"previousHash\":\"\",\"address\":\"\",\"previousAddress\":\"\",\"memo\":\"'' @ [CHR 0x5C] @ ''ufffd\",\"evidence\":null}'')))
        \<lparr>set_error = \<lambda>_ _ _. None, commit_error = \<lambda>_ _. None\<rparr> Map.empty
        ((zero_block :: unit FullSignedBlock)
          \<lparr>Hash := ''dd07ab01'', Height := 1, Timestamp := 67, Memo := [CHR 0xFF]\<rparr>)) = None
   \<and> GetBlock
        (\<lambda>bytes blk.
           if bytes = bytes_of (''{\"hash\":\"dd07ab01\",\"height\":1,\"timestamp\":67,\"data\":null,\"previousHash\":\"\",\"address\":\"\",\"previousAddress\":\"\",\"memo\":\"'' @ [CHR 0x5C] @ ''ufffd\",\"evidence\":null}'')
           then (blk\<lparr>Hash := ''dd07ab01'', Height := 1, Timestamp := 67,
                     Memo := [CHR 0xEF, CHR 0xBF, CHR 0xBD]\<rparr>, None)
           else (blk, Some (Err ''invalid character'')))
        (fst (StoreBlock
          (\<lambda>blk. Inr (bytes_of (''{\"hash\":\"'' @ Hash blk @ ''\",\"height\":1,\"timestamp\":67,\"data\":null,\"previousHash\":\"\",\"address\":\"\",\"previousAddress\":\"\",\"memo\":\"'' @ [CHR 0x5C] @ ''ufffd\",\"evidence\":null}'')))
          \<lparr>set_error = \<lambda>_ _ _. None, commit_error = \<lambda>_ _. None\<rparr> Map.empty
          ((zero_block :: unit FullSignedBlock)
            \<lparr>Hash := ''dd07ab01'', Height := 1, Timestamp := 67, Memo := [CHR 0xFF]\<rparr>)))
        ''dd07ab01''
     = ((zero_block :: unit FullSignedBlock)
          \<lparr>Hash := ''dd07ab01'', Height := 1, Timestamp := 67,
           Memo := [CHR 0xEF, CHR 0xBF, CHR 0xBD]\<rparr>,
        None)
   \<and> FindBlockByTimestamp
        (\<lambda>bytes blk.
           if bytes = bytes_of (''{\"hash\":\"dd07ab01\",\"height\":1,\"timestamp\":67,\"data\":null,\"previousHash\":\"\",\"address\":\"\",\"previousAddress\":\"\",\"memo\":\"'' @ [CHR 0x5C] @ ''ufffd\",\"evidence\":null}'')
           then (blk\<lparr>Hash := ''dd07ab01'', Height := 1, Timestamp := 67,
                     Memo := [CHR 0xEF, CHR 0xBF, CHR 0xBD]\<rparr>, None)
           else (blk, Some (Err ''invalid character'')))
        (fst (StoreBlock
          (\<lambda>blk. Inr (bytes_of (''{\"hash\":\"'' @ Hash blk @ ''\",\"height\":1,\"timestamp\":67,\"data\":null,\"previousHash\":\"\",\"address\":\"\",\"previousAddress\":\"\",\"memo\":\"'' @ [CHR 0x5C] @ ''ufffd\",\"evidence\":null}'')))
          \<lparr>set_error = \<lambda>_ _ _. None, commit_error = \<lambda>_ _. None\<rparr> Map.empty
          ((zero_block :: unit FullSignedBlock)
            \<lparr>Hash := ''dd07ab01'', Height := 1, Timestamp := 67, Memo := [CHR 0xFF]\<rparr>)))
        67
     = ((zero_block :: unit FullSignedBlock)
          \<lparr>Hash := ''dd07ab01'', Height := 1, Timestamp := 67,
           Memo := [CHR 0xEF, CHR 0xBF, CHR 0xBD]\<rparr>,
        None)
   \<and> FindBlockByHeight
        (\<lambda>bytes blk.
           if bytes = bytes_of (''{\"hash\":\"dd07ab01\",\"height\":1,\"timestamp\":67,\"data\":null,\"previousHash\":\"\",\"address\":\"\",\"previousAddress\":\"\",\"memo\":\"'' @ [CHR 0x5C] @ ''ufffd\",\"evidence\":null}'')
           then (blk\<lparr>Hash := ''dd07ab01'', Height := 1, Timestamp := 67,
                     Memo := [CHR 0xEF, CHR 0xBF, CHR 0xBD]\<rparr>, None)
           else (blk, Some (Err ''invalid character'')))
        (fst (StoreBlock
          (\<lambda>blk. Inr (bytes_of (''{\"hash\":\"'' @ Hash blk @ ''\",\"height\":1,\"timestamp\":67,\"data\":null,\"previousHash\":\"\",\"address\":\"\",\"previousAddress\":\"\",\"memo\":\"'' @ [CHR 0x5C] @ ''ufffd\",\"evidence\":null}'')))
          \<lparr>set_error = \<lambda>_ _ _. None, commit_error = \<lambda>_ _. None\<rparr> Map.empty
          ((zero_block :: unit FullSignedBlock)
            \<lparr>Hash := ''dd07ab01'', Height := 1, Timestamp := 67, Memo := [CHR 0xFF]\<rparr>)))
        1
     = ((zero_block :: unit FullSignedBlock)
          \<lparr>Hash := ''dd07ab01'', Height := 1, Timestamp := 67,
           Memo := [CHR 0xEF, CHR 0xBF, CHR 0xBD]\<rparr>,
        None)
   \<and> (zero_block :: unit FullSignedBlock)
          \<lparr>Hash := ''dd07ab01'', Height := 1, Timestamp := 67,
           Memo := [CHR 0xEF, CHR 0xBF, CHR 0xBD]\<rparr>
     \<noteq> (zero_block :: unit FullSignedBlock)
          \<lparr>Hash := ''dd07ab01'', Height := 1, Timestamp := 67, Memo := [CHR 0xFF]\<rparr>"
proof -
  let ?m = "\<lambda>blk :: unit FullSignedBlock.
      Inr (bytes_of (''{\"hash\":\"'' @ Hash blk @ ''\",\"height\":1,\"timestamp\":67,\"data\":null,\"previousHash\":\"\",\"address\":\"\",\"previousAddress\":\"\",\"memo\":\"'' @ [CHR 0x5C] @ ''ufffd\",\"evidence\":null}''))
      :: go_error + u8 list"
  let ?u = "\<lambda>(bytes :: u8 list) (blk :: unit FullSignedBlock).
           if bytes = bytes_of (''{\"hash\":\"dd07ab01\",\"height\":1,\"timestamp\":67,\"data\":null,\"previousHash\":\"\",\"address\":\"\",\"previousAddress\":\"\",\"memo\":\"'' @ [CHR 0x5C] @ ''ufffd\",\"evidence\":null}'')
           then (blk\<lparr>Hash := ''dd07ab01'', Height := 1, Timestamp := 67,
                     Memo := [CHR 0xEF, CHR 0xBF, CHR 0xBD]\<rparr>, None)
           else (blk, Some (Err ''invalid character''))"
  let ?be = "\<lparr>set_error = \<lambda>_ _ _. None, commit_error = \<lambda>_ _. None\<rparr>"
  let ?raw = "(zero_block :: unit FullSignedBlock)\<lparr>Height := 1, Timestamp := 67, Memo := [CHR 0xFF]\<rparr>"
  let ?b = "(zero_block :: unit FullSignedBlock)
              \<lparr>Hash := ''dd07ab01'', Height := 1, Timestamp := 67, Memo := [CHR 0xFF]\<rparr>"
  let ?r = "(zero_block :: unit FullSignedBlock)
              \<lparr>Hash := ''dd07ab01'', Height := 1, Timestamp := 67,
               Memo := [CHR 0xEF, CHR 0xBF, CHR 0xBD]\<rparr>"
  have seal: "FullSignedBlock_CreateHash ?m (\<lambda>_. [0xab, 0x01]) (\<lambda>sec. sec mod 60) ?raw = (?b, None)"
    by (simp add: FullSignedBlock_CreateHash_def calculateHash_def BlockHashPrefix_def
        sprintf_02d_def decimal_digit digit_def sprintf_x_def hex_byte_def zero_block_def Let_def)
  have ok: "snd (StoreBlock ?m ?be Map.empty ?b) = None"
    by (simp add: StoreBlock_unfold Let_def)
  have db: "fst (StoreBlock ?m ?be Map.empty ?b) =
      [string_index HashKeyPrefix ''dd07ab01'' \<mapsto>
         bytes_of (''{\"hash\":\"dd07ab01\",\"height\":1,\"timestamp\":67,\"data\":null,\"previousHash\":\"\",\"address\":\"\",\"previousAddress\":\"\",\"memo\":\"'' @ [CHR 0x5C] @ ''ufffd\",\"evidence\":null}''),
       uint_index TimestampKeyPrefix 67 \<mapsto> bytes_of ''dd07ab01'',
       uint_index HeightKeyPrefix 1 \<mapsto> bytes_of ''dd07ab01'']"
    by (simp add: StoreBlock_unfold Let_def zero_block_def)
  have found:
    "GetBlock ?u (fst (StoreBlock ?m ?be Map.empty ?b)) ''dd07ab01'' = (?r, None)"
    "FindBlockByTimestamp ?u (fst (StoreBlock ?m ?be Map.empty ?b)) 67 = (?r, None)"
    "FindBlockByHeight ?u (fst (StoreBlock ?m ?be Map.empty ?b)) 1 = (?r, None)"
    unfolding db by (simp_all add: GetBlock_eq FindBlockByTimestamp_eq FindBlockByHeight_eq)
  have differs: "?r \<noteq> ?b"
    by (simp add: zero_block_def)
  from seal ok found differs show ?thesis
    by (intro conjI)
qed

end
